theory Spec2Isabelle
  imports Main
begin

section \<open>Password change form (src/frontend/src/pages/user/password-form.tsx)\<close>

text \<open>
  The component holds three pieces of React state: \<open>formData\<close> (three strings),
  \<open>errors\<close> (an optional message per field) and \<open>isLoading\<close>. A JavaScript string
  is modelled as a \<open>string\<close>, one \<open>char\<close> per code unit, so that \<open>.length\<close> is
  \<open>length\<close> and the falsy string is \<open>[]\<close>.
\<close>

record formData =
  currentPassword :: string
  newPassword :: string
  confirmPassword :: string

text \<open>The \<open>errors\<close> object: a key that was never assigned is \<open>None\<close>.\<close>

record errors =
  currentPasswordError :: "string option"
  newPasswordError :: "string option"
  confirmPasswordError :: "string option"

record pw_state =
  formData :: formData
  errors :: errors
  isSubmitting :: bool   \<comment> \<open>the \<open>isLoading\<close> state of the form\<close>

definition no_errors :: errors where
  "no_errors = \<lparr>currentPasswordError = None, newPasswordError = None, confirmPasswordError = None\<rparr>"

definition empty_form :: formData where
  "empty_form = \<lparr>currentPassword = [], newPassword = [], confirmPassword = []\<rparr>"

text \<open>The object literal passed to \<open>axios.post\<close>: exactly two properties.\<close>

record pw_update_body =
  body_currentPassword :: string
  body_newPassword :: string

text \<open>
  How the promise returned by \<open>axios.post\<close> settles: it resolves, it rejects with an
  \<open>AxiosError\<close> (whose \<open>response?.status\<close> may be absent), or it rejects with a value
  that is not an \<open>AxiosError\<close>.
\<close>

datatype post_outcome = Resolved_post | Rejected_axios "nat option" | Rejected_other

text \<open>What the handler does to the outside world, in program order.\<close>

datatype pw_effect =
  Axios_post string pw_update_body
| Toast_success_pw string
| Toast_error_pw string

text \<open>
  \<open>validate\<close> builds \<open>newErrors\<close>, stores it with \<open>setErrors\<close> and returns whether it has
  no key. The keys are only ever assigned message strings.
\<close>

definition validate_errors :: "formData \<Rightarrow> errors" where
  "validate_errors fd =
     \<lparr>currentPasswordError =
        (if currentPassword fd = [] then Some ''Current password is required'' else None),
      newPasswordError =
        (if newPassword fd = [] then Some ''New password is required''
         else if length (newPassword fd) < 8 then Some ''Password must be at least 8 characters''
         else None),
      confirmPasswordError =
        (if newPassword fd \<noteq> confirmPassword fd then Some ''Passwords do not match'' else None)\<rparr>"

definition validate :: "pw_state \<Rightarrow> bool \<times> pw_state" where
  "validate s =
     (let newErrors = validate_errors (formData s)
      in (newErrors = no_errors, s\<lparr>errors := newErrors\<rparr>))"

text \<open>
  \<open>handleSubmit\<close>, with the server as a function from the request to the way the
  promise settles. The result is the state after the handler has finished and the
  effects it issued.
\<close>

definition handleSubmit ::
    "(string \<Rightarrow> pw_update_body \<Rightarrow> post_outcome) \<Rightarrow> pw_state \<Rightarrow> pw_state \<times> pw_effect list" where
  "handleSubmit post s =
     (case validate s of
        (ok, s1) \<Rightarrow>
          if \<not> ok then (s1, [])
          else
            let s2 = s1\<lparr>isSubmitting := True\<rparr>;
                body = \<lparr>body_currentPassword = currentPassword (formData s),
                        body_newPassword = newPassword (formData s)\<rparr>;
                call = Axios_post ''/api/user/pw/update'' body
            in (case post ''/api/user/pw/update'' body of
                  Resolved_post \<Rightarrow>
                    (s2\<lparr>formData := empty_form, isSubmitting := False\<rparr>,
                     [call, Toast_success_pw ''Password updated successfully''])
                | Rejected_axios status \<Rightarrow>
                    if status = Some 401
                    then (s2\<lparr>errors := no_errors\<lparr>currentPasswordError :=
                                          Some ''Current password is incorrect''\<rparr>,
                              isSubmitting := False\<rparr>,
                          [call, Toast_error_pw ''Current password is incorrect''])
                    else (s2\<lparr>isSubmitting := False\<rparr>,
                          [call, Toast_error_pw ''Failed to update password''])
                | Rejected_other \<Rightarrow> (s2\<lparr>isSubmitting := False\<rparr>, [call])))"

definition is_network_call :: "pw_effect \<Rightarrow> bool" where
  "is_network_call e = (case e of Axios_post _ _ \<Rightarrow> True | _ \<Rightarrow> False)"

definition network_calls :: "pw_effect list \<Rightarrow> pw_effect list" where
  "network_calls es = filter is_network_call es"

text \<open>Whether a form passes the local checks, read off the three conditions.\<close>

definition passes_validation :: "formData \<Rightarrow> bool" where
  "passes_validation fd \<longleftrightarrow>
     currentPassword fd \<noteq> [] \<and> 8 \<le> length (newPassword fd) \<and>
     confirmPassword fd = newPassword fd"

section \<open>Assessment history view (src/frontend/src/pages/assessment/history/page.tsx)\<close>

text \<open>
  \<open>value.split('-')\<close> and \<open>.join('-')\<close>, for any separator character. Splitting the
  empty string gives one empty part, as in JavaScript.
\<close>

fun split_on :: "char \<Rightarrow> string \<Rightarrow> string list" where
  "split_on sep [] = [[]]"
| "split_on sep (c # cs) =
     (if c = sep then [] # split_on sep cs
      else (case split_on sep cs of
              [] \<Rightarrow> [[c]]
            | w # ws \<Rightarrow> (c # w) # ws))"

fun join_with :: "char \<Rightarrow> string list \<Rightarrow> string" where
  "join_with sep [] = []"
| "join_with sep [w] = w"
| "join_with sep (w # ws) = w @ sep # join_with sep ws"

text \<open>
  \<open>String.prototype.toUpperCase\<close> is a built-in of the language and not code of this
  repository. It maps a string to a string, and not always code unit by code unit (a
  sharp s becomes SS), so it is a parameter \<open>toUpperCase\<close> of the functions that call it,
  and what is proved below holds for every function put in its place.

  The arrow function of the \<open>map\<close>: \<open>word.charAt(0).toUpperCase() + word.slice(1)\<close>.
  \<open>charAt(0)\<close> is the first code unit as a string, and the empty string when there is
  none.
\<close>

definition capitalize :: "(string \<Rightarrow> string) \<Rightarrow> string \<Rightarrow> string" where
  "capitalize toUpperCase word = toUpperCase (take 1 word) @ drop 1 word"

text \<open>
  \<open>formatValue\<close>. The argument is \<open>string | undefined\<close>: \<open>None\<close> is \<open>undefined\<close>, and
  \<open>!value\<close> holds for \<open>undefined\<close> and for the empty string.
\<close>

definition falsy :: "string option \<Rightarrow> bool" where
  "falsy v = (case v of None \<Rightarrow> True | Some x \<Rightarrow> x = [])"

definition formatValue :: "(string \<Rightarrow> string) \<Rightarrow> string option \<Rightarrow> string" where
  "formatValue toUpperCase v =
     (case v of
        None \<Rightarrow> ''Not provided''
      | Some x \<Rightarrow>
          if x = [] then ''Not provided''
          else if x = ''not-sure'' then ''Not sure''
          else if x = ''varies'' then ''Varies''
          else if x = ''under-13'' then ''Under 13''
          else if x = ''8-plus'' then ''8+ days''
          else join_with (CHR ''-'') (map (capitalize toUpperCase) (split_on (CHR ''-'') x)))"

text \<open>
  \<open>formatDate\<close> calls \<open>parseISO\<close>, \<open>isValid\<close> and \<open>format\<close> of the date-fns library
  inside a \<open>try\<close>. The library is outside this repository, so \<open>parseISO\<close> and
  \<open>format\<close> are parameters; either may throw. A JavaScript \<open>Date\<close> is either the
  invalid date or a valid one.
\<close>

datatype 'a attempt = Thrown | Returned 'a

datatype 'd js_date = Invalid_Date | Valid_Date 'd

definition isValid :: "'d js_date \<Rightarrow> bool" where
  "isValid d = (case d of Invalid_Date \<Rightarrow> False | Valid_Date _ \<Rightarrow> True)"

definition formatDate ::
    "(string \<Rightarrow> 'd js_date attempt) \<Rightarrow> ('d js_date \<Rightarrow> string \<Rightarrow> string attempt) \<Rightarrow>
     string option \<Rightarrow> string" where
  "formatDate parseISO format dateString =
     (case dateString of
        None \<Rightarrow> ''Unknown date''
      | Some ds \<Rightarrow>
          if ds = [] then ''Unknown date''
          else (case parseISO ds of
                  Thrown \<Rightarrow> ''Invalid date''
                | Returned date \<Rightarrow>
                    if \<not> isValid date then ''Invalid date''
                    else (case format date ''MMM d, yyyy'' of
                            Thrown \<Rightarrow> ''Invalid date''
                          | Returned label \<Rightarrow> label)))"

text \<open>
  The payload of an assessment and the card the view renders for it. \<open>data\<close> may be
  \<open>undefined\<close>, and so may each of its fields: \<open>data?.f\<close> is \<open>opt f data\<close>.
\<close>

record assessment_data =
  pattern :: "string option"
  age :: "string option"
  cycleLength :: "string option"
  date :: "string option"

record assessment =
  assessment_id :: string
  assessment_data :: "assessment_data option"

definition opt :: "('a \<Rightarrow> 'b option) \<Rightarrow> 'a option \<Rightarrow> 'b option" where
  "opt f data = (case data of None \<Rightarrow> None | Some d \<Rightarrow> f d)"

definition ageSuffix :: "string option \<Rightarrow> string" where
  "ageSuffix a = (if \<not> falsy a \<and> a \<noteq> Some ''under-13'' then '' years'' else [])"

definition cycleSuffix :: "string option \<Rightarrow> string" where
  "cycleSuffix c =
     (if \<not> falsy c \<and> c \<notin> set [Some ''other'', Some ''varies'', Some ''not-sure'']
      then '' days'' else [])"

record card =
  link :: string
  badge :: string
  dateLabel :: string
  ageLine :: string
  cycleLine :: string

definition renderCard ::
    "(string \<Rightarrow> string) \<Rightarrow> (string \<Rightarrow> 'd js_date attempt) \<Rightarrow>
     ('d js_date \<Rightarrow> string \<Rightarrow> string attempt) \<Rightarrow> assessment \<Rightarrow> card" where
  "renderCard toUpperCase parseISO format a =
     (let data = assessment_data a
      in \<lparr>link = ''/assessment/history/'' @ assessment_id a,
          badge = formatValue toUpperCase (opt pattern data),
          dateLabel = formatDate parseISO format (opt date data),
          ageLine = ''Age:'' @ '' '' @ formatValue toUpperCase (opt age data)
                    @ ageSuffix (opt age data),
          cycleLine = ''Cycle Length:'' @ '' '' @ formatValue toUpperCase (opt cycleLength data)
                      @ cycleSuffix (opt cycleLength data)\<rparr>)"

section \<open>Chat surfaces (src/unnamed/part_000 and src/frontend/src/pages/chat/FullScreenChat.tsx)\<close>

subsection \<open>Data\<close>

datatype role = User | Assistant

record message =
  role :: role
  content :: string

record conversation =
  conv_id :: string
  preview :: string
  lastMessageDate :: string

text \<open>The \<open>ApiMessage\<close> built by the full-screen \<open>handleSend\<close>.\<close>

record api_message =
  api_content :: string
  api_role :: role
  api_timestamp :: string

text \<open>
  The \<open>userData\<close> object read from session storage. \<open>symptoms\<close> is whatever
  \<open>JSON.parse\<close> returns, a value of type \<open>'j\<close>.
\<close>

record 'j user_data =
  ud_age :: string
  ud_cycleLength :: string
  ud_periodDuration :: string
  ud_flowHeaviness :: string
  ud_painLevel :: string
  ud_symptoms :: 'j

text \<open>How a promise settles.\<close>

datatype 'a settled = Rejected | Resolved 'a

text \<open>
  The collaborators of the two components, none of which is under src/: session
  storage, \<open>JSON.parse\<close> (which throws on malformed text), the clock, the message API
  and the AI service. \<open>sendMessage\<close> resolves to \<open>response?.conversationId\<close>, and
  \<open>getHistory\<close> to the array it returned, or \<open>None\<close> when the value is not an array.
  Each collaborator is a function of its arguments: asked the same thing twice within
  one handler, it answers the same way.
\<close>

record 'j env =
  getItem :: "string \<Rightarrow> string option"
  json_parse :: "string \<Rightarrow> 'j attempt"
  now_iso :: string
  sendMessage :: "api_message \<Rightarrow> string option settled"
  getHistory :: "conversation list option settled"
  getConversation :: "string \<Rightarrow> message list settled"
  deleteConversation :: "string \<Rightarrow> unit settled"
  getAIFeedback :: "'j user_data \<Rightarrow> string \<Rightarrow> string settled"

text \<open>
  The React state of the modal, and the two further pieces the full-screen component
  adds. \<open>hasSentInitialMessage\<close> is the \<open>useRef\<close> flag. The full-screen component
  also keeps \<open>isSidebarOpen\<close>, which no handler below reads or writes.
\<close>

record chat_state =
  messages :: "message list"
  input :: string
  isLoading :: bool
  hasSentInitialMessage :: bool

record fullscreen_state = chat_state +
  conversations :: "conversation list"
  currentConversationId :: "string option"

text \<open>
  A handler reads the state its render captured and issues, in program order, state
  updates, calls to the collaborators and toasts. \<open>AppendMessage m\<close> is the functional
  update \<open>setMessages((prev) => [...prev, m])\<close>.
\<close>

datatype 'j action =
  SetInput string
| AppendMessage message
| SetMessages "message list"
| SetIsLoading bool
| SetHasSentInitialMessage bool
| SetCurrentConversationId "string option"
| SetConversations "conversation list"
| Call_sendMessage api_message
| Call_getHistory
| Call_getConversation string
| Call_deleteConversation string
| Call_getAIFeedback "'j user_data" string
| Toast_error string
| Toast_success string

definition apply_action :: "'j action \<Rightarrow> 'a chat_state_scheme \<Rightarrow> 'a chat_state_scheme" where
  "apply_action a s =
     (case a of
        SetInput t \<Rightarrow> s\<lparr>input := t\<rparr>
      | AppendMessage m \<Rightarrow> s\<lparr>messages := messages s @ [m]\<rparr>
      | SetMessages ms \<Rightarrow> s\<lparr>messages := ms\<rparr>
      | SetIsLoading b \<Rightarrow> s\<lparr>isLoading := b\<rparr>
      | SetHasSentInitialMessage b \<Rightarrow> s\<lparr>hasSentInitialMessage := b\<rparr>
      | _ \<Rightarrow> s)"

definition apply_fullscreen :: "'j action \<Rightarrow> fullscreen_state \<Rightarrow> fullscreen_state" where
  "apply_fullscreen a s =
     (case a of
        SetCurrentConversationId c \<Rightarrow> s\<lparr>currentConversationId := c\<rparr>
      | SetConversations cs \<Rightarrow> s\<lparr>conversations := cs\<rparr>
      | _ \<Rightarrow> apply_action a s)"

text \<open>
  The updates of a trace are applied one after the other to the state the component
  is in; calls and toasts leave it as it is. The state a handler captured and the
  state its updates meet are kept apart: they are the same when the handler runs on
  the latest render and nothing else writes the state meanwhile.

  \<open>run_fullscreen\<close> applies the updates of the trace it is given and of nothing else. The
  full-screen component also has an effect on \<open>currentConversationId\<close>, defined below
  with \<open>loads_triggered\<close>: a trace that changes the id starts a \<open>loadConversation\<close>, whose
  \<open>setMessages\<close> replaces the message list at some later moment. So the message list
  of \<open>run_fullscreen tr s\<close> is that of the component after \<open>tr\<close> only when \<open>tr\<close>
  triggers no load, and only then is it stated below.
\<close>

definition run_modal :: "'j action list \<Rightarrow> chat_state \<Rightarrow> chat_state" where
  "run_modal tr s = fold apply_action tr s"

definition run_fullscreen :: "'j action list \<Rightarrow> fullscreen_state \<Rightarrow> fullscreen_state" where
  "run_fullscreen tr s = fold apply_fullscreen tr s"

definition is_call :: "'j action \<Rightarrow> bool" where
  "is_call a =
     (case a of
        Call_sendMessage _ \<Rightarrow> True
      | Call_getHistory \<Rightarrow> True
      | Call_getConversation _ \<Rightarrow> True
      | Call_deleteConversation _ \<Rightarrow> True
      | Call_getAIFeedback _ _ \<Rightarrow> True
      | _ \<Rightarrow> False)"

definition is_message_update :: "'j action \<Rightarrow> bool" where
  "is_message_update a =
     (case a of AppendMessage _ \<Rightarrow> True | SetMessages _ \<Rightarrow> True | _ \<Rightarrow> False)"

subsection \<open>Shared pieces of the two handlers\<close>

text \<open>
  \<open>String.prototype.trim\<close> over the code units below 256: tab, line feed, vertical
  tab, form feed, carriage return, space and no-break space are white space.
\<close>

definition is_whitespace :: "char \<Rightarrow> bool" where
  "is_whitespace c = ((of_char c :: nat) \<in> set [9, 10, 11, 12, 13, 32, 160])"

definition trim :: "string \<Rightarrow> string" where
  "trim s = rev (dropWhile is_whitespace (rev (dropWhile is_whitespace s)))"

text \<open>\<open>const textToSend = messageText || input.trim()\<close>.\<close>

definition textToSend :: "string option \<Rightarrow> string \<Rightarrow> string" where
  "textToSend messageText inp =
     (case messageText of
        None \<Rightarrow> trim inp
      | Some m \<Rightarrow> if m = [] then trim inp else m)"

text \<open>\<open>sessionStorage.getItem(k) || d\<close>.\<close>

definition getItem_or :: "'j env \<Rightarrow> string \<Rightarrow> string \<Rightarrow> string" where
  "getItem_or e k d =
     (case getItem e k of
        None \<Rightarrow> d
      | Some v \<Rightarrow> if v = [] then d else v)"

definition read_userData :: "'j env \<Rightarrow> 'j user_data attempt" where
  "read_userData e =
     (case json_parse e (getItem_or e ''symptoms'' ''[]'') of
        Thrown \<Rightarrow> Thrown
      | Returned sy \<Rightarrow>
          Returned \<lparr>ud_age = getItem_or e ''age'' [],
                    ud_cycleLength = getItem_or e ''cycleLength'' [],
                    ud_periodDuration = getItem_or e ''periodDuration'' [],
                    ud_flowHeaviness = getItem_or e ''flowLevel'' [],
                    ud_painLevel = getItem_or e ''painLevel'' [],
                    ud_symptoms = sy\<rparr>)"

definition apology :: message where
  "apology = \<lparr>role = Assistant, content =
     ''I apologize, but I'' @ [CHR 0x27] @
     ''m having trouble processing your request right now. Please try again later.''\<rparr>"

definition user_message :: "string \<Rightarrow> message" where
  "user_message t = \<lparr>role = User, content = t\<rparr>"

text \<open>The assistant message that ends a send: the reply, or the apology of the \<open>catch\<close>.\<close>

definition ai_message :: "'j env \<Rightarrow> 'j user_data \<Rightarrow> string \<Rightarrow> message" where
  "ai_message e ud t =
     (case getAIFeedback e ud t of
        Resolved aiResponse \<Rightarrow> \<lparr>role = Assistant, content = aiResponse\<rparr>
      | Rejected \<Rightarrow> apology)"

text \<open>
  What a send appends after the user message \<open>t\<close>, on either surface: reading the
  session storage happens inside the \<open>try\<close>, so a \<open>JSON.parse\<close> that throws ends in
  the apology as well.
\<close>

definition assistant_reply :: "'j env \<Rightarrow> string \<Rightarrow> message" where
  "assistant_reply e t =
     (case read_userData e of
        Thrown \<Rightarrow> apology
      | Returned userData \<Rightarrow> ai_message e userData t)"

subsection \<open>ChatModal\<close>

definition ChatModal_handleSend :: "'j env \<Rightarrow> string option \<Rightarrow> chat_state \<Rightarrow> 'j action list" where
  "ChatModal_handleSend e messageText c =
     (let userMessage = textToSend messageText (input c)
      in if userMessage = [] \<or> isLoading c then []
         else [SetInput [], AppendMessage (user_message userMessage), SetIsLoading True]
              @ (case read_userData e of
                   Thrown \<Rightarrow> [AppendMessage apology]
                 | Returned userData \<Rightarrow>
                     [Call_getAIFeedback userData userMessage,
                      AppendMessage (ai_message e userData userMessage)])
              @ [SetIsLoading False])"

text \<open>The effect \<open>sendInitialMessage\<close>, run when \<open>isOpen\<close> or \<open>initialMessage\<close> changes.\<close>

definition ChatModal_sendInitialMessage ::
    "'j env \<Rightarrow> bool \<Rightarrow> string option \<Rightarrow> chat_state \<Rightarrow> 'j action list" where
  "ChatModal_sendInitialMessage e isOpen initialMessage c =
     (if isOpen \<and> \<not> falsy initialMessage \<and> length (messages c) = 0
         \<and> \<not> hasSentInitialMessage c
      then SetHasSentInitialMessage True # ChatModal_handleSend e initialMessage c
      else [])"

subsection \<open>FullscreenChat\<close>

definition fetchConversations :: "'j env \<Rightarrow> 'j action list" where
  "fetchConversations e =
     Call_getHistory #
     (case getHistory e of
        Resolved history \<Rightarrow>
          [SetConversations (case history of Some cs \<Rightarrow> cs | None \<Rightarrow> [])]
      | Rejected \<Rightarrow> [Toast_error ''Failed to load conversations'', SetConversations []])"

definition messagePayload :: "'j env \<Rightarrow> string \<Rightarrow> api_message" where
  "messagePayload e userMessage =
     \<lparr>api_content = userMessage, api_role = User, api_timestamp = now_iso e\<rparr>"

text \<open>
  The full-screen \<open>handleSend\<close> in two parts: what runs before its first \<open>await\<close>
  (up to and including the call of \<open>sendMessage\<close>), and the continuation. A caller
  that does not await the handler runs its own next statements between the two. These
  are the steps of the handler itself; the load that its \<open>setCurrentConversationId\<close>
  may start belongs to the effect on the id, defined after \<open>loadConversation\<close>.
\<close>

definition FullscreenChat_handleSend_sync ::
    "'j env \<Rightarrow> string option \<Rightarrow> fullscreen_state \<Rightarrow> 'j action list" where
  "FullscreenChat_handleSend_sync e messageText c =
     (let userMessage = textToSend messageText (input c)
      in if userMessage = [] \<or> isLoading c then []
         else [SetInput [], AppendMessage (user_message userMessage), SetIsLoading True]
              @ (case read_userData e of
                   Thrown \<Rightarrow> [AppendMessage apology, SetIsLoading False]
                 | Returned userData \<Rightarrow> [Call_sendMessage (messagePayload e userMessage)]))"

definition FullscreenChat_handleSend_rest ::
    "'j env \<Rightarrow> string option \<Rightarrow> fullscreen_state \<Rightarrow> 'j action list" where
  "FullscreenChat_handleSend_rest e messageText c =
     (let userMessage = textToSend messageText (input c)
      in if userMessage = [] \<or> isLoading c then []
         else (case read_userData e of
                 Thrown \<Rightarrow> []
               | Returned userData \<Rightarrow>
                   (case sendMessage e (messagePayload e userMessage) of
                      Resolved conversationId \<Rightarrow>
                        if \<not> falsy conversationId
                        then SetCurrentConversationId conversationId # fetchConversations e
                        else []
                    | Rejected \<Rightarrow> [Toast_error ''Failed to send message. Please try again.''])
                   @ [Call_getAIFeedback userData userMessage,
                      AppendMessage (ai_message e userData userMessage),
                      SetIsLoading False]))"

definition FullscreenChat_handleSend ::
    "'j env \<Rightarrow> string option \<Rightarrow> fullscreen_state \<Rightarrow> 'j action list" where
  "FullscreenChat_handleSend e messageText c =
     FullscreenChat_handleSend_sync e messageText c @ FullscreenChat_handleSend_rest e messageText c"

definition loadConversation :: "'j env \<Rightarrow> string \<Rightarrow> 'j action list" where
  "loadConversation e conversationId =
     Call_getConversation conversationId #
     (case getConversation e conversationId of
        Resolved msgs \<Rightarrow> [SetMessages msgs]
      | Rejected \<Rightarrow> [Toast_error ''Failed to load conversation''])"

text \<open>
  The effect \<open>if (currentConversationId) loadConversation(currentConversationId)\<close>
  with dependency \<open>[currentConversationId]\<close>: it runs after a render whose id differs
  from the id of the render before, and loads the conversation when the new id is
  neither null nor empty.
\<close>

definition currentConversationId_effect ::
    "'j env \<Rightarrow> string option \<Rightarrow> string option \<Rightarrow> 'j action list" where
  "currentConversationId_effect e previous current =
     (case current of
        None \<Rightarrow> []
      | Some conversationId \<Rightarrow>
          if conversationId \<noteq> [] \<and> current \<noteq> previous
          then loadConversation e conversationId else [])"

text \<open>
  The ids for which a trace makes that effect call \<open>loadConversation\<close>, when the
  component's id is \<open>cur\<close> as the trace begins. In the handlers below every update of
  the id is followed by an \<open>await\<close> before the next one, so each is rendered.
\<close>

fun loads_triggered :: "string option \<Rightarrow> 'j action list \<Rightarrow> string list" where
  "loads_triggered cur [] = []"
| "loads_triggered cur (a # tr) =
     (case a of
        SetCurrentConversationId v \<Rightarrow>
          (case v of
             None \<Rightarrow> []
           | Some conversationId \<Rightarrow>
               if conversationId \<noteq> [] \<and> v \<noteq> cur then [conversationId] else [])
          @ loads_triggered v tr
      | _ \<Rightarrow> loads_triggered cur tr)"

text \<open>
  \<open>handleNewConversation\<close> calls \<open>handleSend(initialMessage)\<close> without awaiting it, so
  it too has a part that runs at once and a continuation.
\<close>

definition handleNewConversation_sync ::
    "'j env \<Rightarrow> string option \<Rightarrow> fullscreen_state \<Rightarrow> 'j action list" where
  "handleNewConversation_sync e initialMessage c =
     [SetCurrentConversationId None, SetMessages [], SetInput [], SetHasSentInitialMessage False]
     @ (if \<not> falsy initialMessage then FullscreenChat_handleSend_sync e initialMessage c else [])"

definition handleNewConversation_rest ::
    "'j env \<Rightarrow> string option \<Rightarrow> fullscreen_state \<Rightarrow> 'j action list" where
  "handleNewConversation_rest e initialMessage c =
     (if \<not> falsy initialMessage then FullscreenChat_handleSend_rest e initialMessage c else [])"

definition handleNewConversation ::
    "'j env \<Rightarrow> string option \<Rightarrow> fullscreen_state \<Rightarrow> 'j action list" where
  "handleNewConversation e initialMessage c =
     handleNewConversation_sync e initialMessage c @ handleNewConversation_rest e initialMessage c"

definition handleDeleteConversation ::
    "'j env \<Rightarrow> string option \<Rightarrow> string \<Rightarrow> fullscreen_state \<Rightarrow> 'j action list" where
  "handleDeleteConversation e initialMessage conversationId c =
     Call_deleteConversation conversationId #
     (case deleteConversation e conversationId of
        Rejected \<Rightarrow> [Toast_error ''Failed to delete conversation'']
      | Resolved _ \<Rightarrow>
          fetchConversations e
          @ (if currentConversationId c = Some conversationId
             then handleNewConversation_sync e initialMessage c else [])
          @ [Toast_success ''Conversation deleted'']
          @ (if currentConversationId c = Some conversationId
             then handleNewConversation_rest e initialMessage c else []))"

text \<open>
  The steps \<open>handleDeleteConversation\<close> has taken when its own promise settles, that is
  up to its toast: the continuation of the send it may have started comes after.
\<close>

definition handleDeleteConversation_returned ::
    "'j env \<Rightarrow> string option \<Rightarrow> string \<Rightarrow> fullscreen_state \<Rightarrow> 'j action list" where
  "handleDeleteConversation_returned e initialMessage conversationId c =
     Call_deleteConversation conversationId #
     (case deleteConversation e conversationId of
        Rejected \<Rightarrow> [Toast_error ''Failed to delete conversation'']
      | Resolved _ \<Rightarrow>
          fetchConversations e
          @ (if currentConversationId c = Some conversationId
             then handleNewConversation_sync e initialMessage c else [])
          @ [Toast_success ''Conversation deleted''])"

text \<open>The effect \<open>sendInitialMessage\<close> of the full-screen component.\<close>

definition FullscreenChat_sendInitialMessage ::
    "'j env \<Rightarrow> string option \<Rightarrow> fullscreen_state \<Rightarrow> 'j action list" where
  "FullscreenChat_sendInitialMessage e initialMessage c =
     (if \<not> falsy initialMessage \<and> length (messages c) = 0 \<and> \<not> hasSentInitialMessage c
      then SetHasSentInitialMessage True # FullscreenChat_handleSend e initialMessage c
      else [])"

subsection \<open>Mounting and re-rendering\<close>

text \<open>
  The state \<open>useState\<close> and \<open>useRef\<close> give a freshly mounted component.
\<close>

definition modal_mount_state :: chat_state where
  "modal_mount_state =
     \<lparr>messages = [], input = [], isLoading = False, hasSentInitialMessage = False\<rparr>"

definition fullscreen_mount_state :: fullscreen_state where
  "fullscreen_mount_state =
     \<lparr>messages = [], input = [], isLoading = False, hasSentInitialMessage = False,
      conversations = [], currentConversationId = None\<rparr>"

text \<open>
  An ordinary re-render: the React state has changed in some way \<open>u\<close> (anything a
  setter can do, a list brought by \<open>loadConversation\<close> included), the ref keeps its
  value, and the effect runs again. The result lists what the effect did at each
  render. No new-conversation action takes place in such a stretch of renders, since
  that would write the ref.
\<close>

fun fullscreen_rerenders ::
    "'j env \<Rightarrow> string option \<Rightarrow> (fullscreen_state \<Rightarrow> fullscreen_state) list \<Rightarrow>
     fullscreen_state \<Rightarrow> 'j action list list" where
  "fullscreen_rerenders e initialMessage [] s = []"
| "fullscreen_rerenders e initialMessage (u # us) s =
     (let c = (u s)\<lparr>hasSentInitialMessage := hasSentInitialMessage s\<rparr>;
          tr = FullscreenChat_sendInitialMessage e initialMessage c
      in tr # fullscreen_rerenders e initialMessage us (run_fullscreen tr c))"

definition fullscreen_lifetime ::
    "'j env \<Rightarrow> string option \<Rightarrow> (fullscreen_state \<Rightarrow> fullscreen_state) list \<Rightarrow>
     'j action list list" where
  "fullscreen_lifetime e initialMessage us =
     fullscreen_rerenders e initialMessage (id # us) fullscreen_mount_state"

text \<open>For the modal each render also has its value of the \<open>isOpen\<close> prop.\<close>

fun modal_rerenders ::
    "'j env \<Rightarrow> string option \<Rightarrow> (bool \<times> (chat_state \<Rightarrow> chat_state)) list \<Rightarrow>
     chat_state \<Rightarrow> 'j action list list" where
  "modal_rerenders e initialMessage [] s = []"
| "modal_rerenders e initialMessage ((isOpen, u) # us) s =
     (let c = (u s)\<lparr>hasSentInitialMessage := hasSentInitialMessage s\<rparr>;
          tr = ChatModal_sendInitialMessage e isOpen initialMessage c
      in tr # modal_rerenders e initialMessage us (run_modal tr c))"

definition modal_lifetime ::
    "'j env \<Rightarrow> string option \<Rightarrow> bool \<Rightarrow> (bool \<times> (chat_state \<Rightarrow> chat_state)) list \<Rightarrow>
     'j action list list" where
  "modal_lifetime e initialMessage isOpen us =
     modal_rerenders e initialMessage ((isOpen, id) # us) modal_mount_state"

text \<open>How many times a trace appends the user message \<open>t\<close>, and a reset of the guard.\<close>

definition sends_of :: "string \<Rightarrow> 'j action list \<Rightarrow> nat" where
  "sends_of t tr = length (filter (\<lambda>a. a = AppendMessage (user_message t)) tr)"

definition resets_guard :: "'j action list \<Rightarrow> bool" where
  "resets_guard tr \<longleftrightarrow> SetHasSentInitialMessage False \<in> set tr"

section \<open>Concrete inputs\<close>

text \<open>Servers that settle every request the same way.\<close>

definition accepting_server :: "string \<Rightarrow> pw_update_body \<Rightarrow> post_outcome" where
  "accepting_server url body = Resolved_post"

definition unauthorized_server :: "string \<Rightarrow> pw_update_body \<Rightarrow> post_outcome" where
  "unauthorized_server url body = Rejected_axios (Some 401)"

definition crashing_server :: "string \<Rightarrow> pw_update_body \<Rightarrow> post_outcome" where
  "crashing_server url body = Rejected_other"

definition pw_state_of :: "string \<Rightarrow> string \<Rightarrow> string \<Rightarrow> pw_state" where
  "pw_state_of cur new conf =
     \<lparr>formData = \<lparr>currentPassword = cur, newPassword = new, confirmPassword = conf\<rparr>,
      errors = no_errors, isSubmitting = False\<rparr>"

text \<open>
  The assessment of the specification's example, and the part of date-fns it needs:
  a parser that knows this one date, and \<open>format\<close> for it.
\<close>

definition example_assessment :: assessment where
  "example_assessment =
     \<lparr>assessment_id = ''a1'',
      assessment_data = Some \<lparr>pattern = Some ''irregular-periods'', age = Some ''18-24'',
                              cycleLength = Some ''not-sure'', date = Some ''2024-03-05''\<rparr>\<rparr>"

text \<open>
  An argument for \<open>toUpperCase\<close> in the examples: it raises the ASCII letters a to z, as
  \<open>String.prototype.toUpperCase\<close> does on ASCII text, and is only ever applied to such
  text here; it leaves every other code unit alone and is not the built-in there.
\<close>

definition example_toUpperCase :: "string \<Rightarrow> string" where
  "example_toUpperCase w =
     map (\<lambda>c. if 97 \<le> (of_char c :: nat) \<and> (of_char c :: nat) \<le> 122
              then char_of ((of_char c :: nat) - 32) else c) w"

definition example_parseISO :: "string \<Rightarrow> (nat \<times> nat \<times> nat) js_date attempt" where
  "example_parseISO ds =
     (if ds = ''2024-03-05'' then Returned (Valid_Date (2024, 3, 5)) else Returned Invalid_Date)"

definition example_format :: "(nat \<times> nat \<times> nat) js_date \<Rightarrow> string \<Rightarrow> string attempt" where
  "example_format d fmt =
     (if d = Valid_Date (2024, 3, 5) \<and> fmt = ''MMM d, yyyy'' then Returned ''Mar 5, 2024''
      else Thrown)"

text \<open>
  Collaborators for the chat surfaces: an empty session storage, a \<open>JSON.parse\<close> that
  succeeds, a message API that stores every message in conversation \<open>c2\<close>, and an AI
  service that answers \<open>ok\<close>; and the same with an AI service that fails.
\<close>

definition example_env :: "unit env" where
  "example_env =
     \<lparr>getItem = (\<lambda>k. None),
      json_parse = (\<lambda>t. Returned ()),
      now_iso = ''2024-03-05T10:00:00.000Z'',
      sendMessage = (\<lambda>m. Resolved (Some ''c2'')),
      getHistory = Resolved (Some []),
      getConversation = (\<lambda>i. Resolved []),
      deleteConversation = (\<lambda>i. Resolved ()),
      getAIFeedback = (\<lambda>ud t. Resolved ''ok'')\<rparr>"

definition failing_ai_env :: "unit env" where
  "failing_ai_env = example_env\<lparr>sendMessage := (\<lambda>m. Rejected), getAIFeedback := (\<lambda>ud t. Rejected)\<rparr>"

text \<open>
  A message API that files every message under conversation \<open>c1\<close>, and a session
  storage whose \<open>symptoms\<close> entry is not JSON.
\<close>

definition same_conversation_env :: "unit env" where
  "same_conversation_env = example_env\<lparr>sendMessage := (\<lambda>m. Resolved (Some ''c1''))\<rparr>"

definition broken_storage_env :: "unit env" where
  "broken_storage_env =
     example_env\<lparr>getItem := (\<lambda>k. if k = ''symptoms'' then Some ''not json'' else None),
                  json_parse := (\<lambda>t. if t = ''[]'' then Returned () else Thrown)\<rparr>"

definition example_userData :: "unit user_data" where
  "example_userData =
     \<lparr>ud_age = [], ud_cycleLength = [], ud_periodDuration = [], ud_flowHeaviness = [],
      ud_painLevel = [], ud_symptoms = ()\<rparr>"

text \<open>A full-screen chat showing conversation \<open>c1\<close>.\<close>

definition example_fullscreen_state :: fullscreen_state where
  "example_fullscreen_state =
     \<lparr>messages = [user_message ''earlier question'',
                  \<lparr>role = Assistant, content = ''earlier answer''\<rparr>],
      input = ''draft'', isLoading = False, hasSentInitialMessage = True,
      conversations = [\<lparr>conv_id = ''c1'', preview = ''earlier question'',
                        lastMessageDate = ''2024-03-04''\<rparr>],
      currentConversationId = Some ''c1''\<rparr>"

section \<open>Properties of the password form\<close>

lemma validate_errors_none_iff:
  "validate_errors fd = no_errors \<longleftrightarrow> passes_validation fd"
  by (auto simp: validate_errors_def no_errors_def passes_validation_def)

lemma fst_validate: "fst (validate s) = passes_validation (formData s)"
  by (simp add: validate_def Let_def validate_errors_none_iff)

lemma snd_validate: "snd (validate s) = s\<lparr>errors := validate_errors (formData s)\<rparr>"
  by (simp add: validate_def Let_def)

lemma handleSubmit_invalid:
  "\<not> passes_validation (formData s) \<Longrightarrow>
   handleSubmit post s = (s\<lparr>errors := validate_errors (formData s)\<rparr>, [])"
  using fst_validate [of s] snd_validate [of s]
  by (cases "validate s") (simp add: handleSubmit_def)

lemma handleSubmit_valid:
  assumes "passes_validation (formData s)"
  shows "handleSubmit post s =
     (let body = \<lparr>body_currentPassword = currentPassword (formData s),
                   body_newPassword = newPassword (formData s)\<rparr>;
          call = Axios_post ''/api/user/pw/update'' body
      in (case post ''/api/user/pw/update'' body of
            Resolved_post \<Rightarrow>
              (s\<lparr>formData := empty_form, errors := no_errors, isSubmitting := False\<rparr>,
               [call, Toast_success_pw ''Password updated successfully''])
          | Rejected_axios status \<Rightarrow>
              if status = Some 401
              then (s\<lparr>errors := no_errors\<lparr>currentPasswordError :=
                                   Some ''Current password is incorrect''\<rparr>,
                      isSubmitting := False\<rparr>,
                    [call, Toast_error_pw ''Current password is incorrect''])
              else (s\<lparr>errors := no_errors, isSubmitting := False\<rparr>,
                    [call, Toast_error_pw ''Failed to update password''])
          | Rejected_other \<Rightarrow> (s\<lparr>errors := no_errors, isSubmitting := False\<rparr>, [call])))"
proof -
  have v: "validate_errors (formData s) = no_errors"
    using assms by (simp add: validate_errors_none_iff)
  have "validate s = (True, s\<lparr>errors := no_errors\<rparr>)"
    using fst_validate [of s] snd_validate [of s] assms v
    by (cases "validate s") simp
  then show ?thesis
    by (simp add: handleSubmit_def Let_def split: post_outcome.splits)
qed

lemma passes_validation_state_of:
  "passes_validation (formData (pw_state_of cur new conf)) \<longleftrightarrow>
   cur \<noteq> [] \<and> 8 \<le> length new \<and> conf = new"
  by (simp add: pw_state_of_def passes_validation_def)

text \<open>
  C8. A submission whose current password is empty, whose new password is empty or
  shorter than 8 characters, or whose confirmation differs from the new password issues
  no network call (it has no effect outside the component at all), leaves the three
  fields as they are, and shows for each field the message of the check it failed:
  "Current password is required", "New password is required" or "Password must be at
  least 8 characters", and "Passwords do not match"; a field whose check passed shows
  no message.
\<close>

theorem C8_invalid_submission_is_blocked:
  assumes "currentPassword (formData s) = [] \<or> newPassword (formData s) = []
           \<or> length (newPassword (formData s)) < 8
           \<or> confirmPassword (formData s) \<noteq> newPassword (formData s)"
  shows "network_calls (snd (handleSubmit post s)) = []
       \<and> snd (handleSubmit post s) = []
       \<and> formData (fst (handleSubmit post s)) = formData s
       \<and> currentPasswordError (errors (fst (handleSubmit post s))) =
           (if currentPassword (formData s) = [] then Some ''Current password is required''
            else None)
       \<and> newPasswordError (errors (fst (handleSubmit post s))) =
           (if newPassword (formData s) = [] then Some ''New password is required''
            else if length (newPassword (formData s)) < 8
            then Some ''Password must be at least 8 characters'' else None)
       \<and> confirmPasswordError (errors (fst (handleSubmit post s))) =
           (if confirmPassword (formData s) \<noteq> newPassword (formData s)
            then Some ''Passwords do not match'' else None)"
proof -
  have "\<not> passes_validation (formData s)"
    using assms by (auto simp: passes_validation_def)
  then have "handleSubmit post s = (s\<lparr>errors := validate_errors (formData s)\<rparr>, [])"
    by (rule handleSubmit_invalid)
  then show ?thesis
    by (auto simp: network_calls_def validate_errors_def)
qed

theorem C8_invalid_submission_witness:
  "length (newPassword (formData (pw_state_of [] ''short'' ''other''))) < 8
   \<and> snd (handleSubmit accepting_server (pw_state_of [] ''short'' ''other'')) = []
   \<and> errors (fst (handleSubmit accepting_server (pw_state_of [] ''short'' ''other''))) =
       \<lparr>currentPasswordError = Some ''Current password is required'',
        newPasswordError = Some ''Password must be at least 8 characters'',
        confirmPasswordError = Some ''Passwords do not match''\<rparr>"
proof -
  have h: "length (newPassword (formData (pw_state_of [] ''short'' ''other''))) < 8"
    by (simp add: pw_state_of_def)
  then have "currentPassword (formData (pw_state_of [] ''short'' ''other'')) = []
      \<or> newPassword (formData (pw_state_of [] ''short'' ''other'')) = []
      \<or> length (newPassword (formData (pw_state_of [] ''short'' ''other''))) < 8
      \<or> confirmPassword (formData (pw_state_of [] ''short'' ''other''))
          \<noteq> newPassword (formData (pw_state_of [] ''short'' ''other'')) "
    by blast
  from C8_invalid_submission_is_blocked [OF this, of accepting_server] h
  show ?thesis
    by (cases "errors (fst (handleSubmit accepting_server (pw_state_of [] ''short'' ''other'')))")
       (simp add: pw_state_of_def)
qed

text \<open>
  C9, as the code has it. For a submission that passes the local checks: when the
  update call resolves, the three fields are cleared and the success toast is shown;
  when it is rejected by an AxiosError with status 401, the only field error is
  "Current password is incorrect" on the current password, the same text is shown as an
  error toast, and the three fields keep their values; when it is rejected by any other
  AxiosError, the toast "Failed to update password" is shown; when it is rejected by
  something that is not an AxiosError, no toast is shown. In every case the loading
  flag is false afterwards.
\<close>

theorem C9_submission_outcomes:
  assumes "passes_validation (formData s)"
  shows "(post ''/api/user/pw/update''
            \<lparr>body_currentPassword = currentPassword (formData s),
             body_newPassword = newPassword (formData s)\<rparr> = Resolved_post \<longrightarrow>
            formData (fst (handleSubmit post s)) = empty_form
          \<and> Toast_success_pw ''Password updated successfully'' \<in> set (snd (handleSubmit post s)))
       \<and> (post ''/api/user/pw/update''
            \<lparr>body_currentPassword = currentPassword (formData s),
             body_newPassword = newPassword (formData s)\<rparr> = Rejected_axios (Some 401) \<longrightarrow>
            errors (fst (handleSubmit post s)) =
              \<lparr>currentPasswordError = Some ''Current password is incorrect'',
               newPasswordError = None, confirmPasswordError = None\<rparr>
          \<and> formData (fst (handleSubmit post s)) = formData s
          \<and> Toast_error_pw ''Current password is incorrect'' \<in> set (snd (handleSubmit post s)))
       \<and> (\<forall>status. status \<noteq> Some 401 \<and> post ''/api/user/pw/update''
            \<lparr>body_currentPassword = currentPassword (formData s),
             body_newPassword = newPassword (formData s)\<rparr> = Rejected_axios status \<longrightarrow>
            formData (fst (handleSubmit post s)) = formData s
          \<and> errors (fst (handleSubmit post s)) = no_errors
          \<and> Toast_error_pw ''Failed to update password'' \<in> set (snd (handleSubmit post s)))
       \<and> (post ''/api/user/pw/update''
            \<lparr>body_currentPassword = currentPassword (formData s),
             body_newPassword = newPassword (formData s)\<rparr> = Rejected_other \<longrightarrow>
            formData (fst (handleSubmit post s)) = formData s
          \<and> (\<forall>t. Toast_error_pw t \<notin> set (snd (handleSubmit post s))
                 \<and> Toast_success_pw t \<notin> set (snd (handleSubmit post s))))
       \<and> isSubmitting (fst (handleSubmit post s)) = False"
  by (auto simp: handleSubmit_valid [OF assms] Let_def no_errors_def
           split: post_outcome.splits)

theorem C9_submission_outcomes_witness:
  "passes_validation (formData (pw_state_of ''old-secret'' ''new-secret-1'' ''new-secret-1''))
   \<and> formData (fst (handleSubmit accepting_server
        (pw_state_of ''old-secret'' ''new-secret-1'' ''new-secret-1''))) = empty_form
   \<and> isSubmitting (fst (handleSubmit accepting_server
        (pw_state_of ''old-secret'' ''new-secret-1'' ''new-secret-1''))) = False"
proof -
  have h: "passes_validation (formData (pw_state_of ''old-secret'' ''new-secret-1'' ''new-secret-1''))"
    by (simp add: passes_validation_state_of)
  from C9_submission_outcomes [OF h, of accepting_server] h
  show ?thesis by (simp add: accepting_server_def)
qed

text \<open>
  The claim C9 as the specification words it fails: a rejection that is not an
  AxiosError passes the \<open>instanceof\<close> guard by, and the handler shows no toast.
\<close>

theorem C9_counterexample:
  "passes_validation (formData (pw_state_of ''old-secret'' ''new-secret-1'' ''new-secret-1''))
   \<and> snd (handleSubmit crashing_server
        (pw_state_of ''old-secret'' ''new-secret-1'' ''new-secret-1'')) =
       [Axios_post ''/api/user/pw/update''
          \<lparr>body_currentPassword = ''old-secret'', body_newPassword = ''new-secret-1''\<rparr>]
   \<and> Toast_error_pw ''Failed to update password'' \<notin> set (snd (handleSubmit crashing_server
        (pw_state_of ''old-secret'' ''new-secret-1'' ''new-secret-1'')))"
proof -
  have h: "passes_validation (formData (pw_state_of ''old-secret'' ''new-secret-1'' ''new-secret-1''))"
    by (simp add: passes_validation_state_of)
  show ?thesis
    unfolding handleSubmit_valid [OF h]
    by (simp add: crashing_server_def Let_def pw_state_of_def passes_validation_def)
qed

text \<open>
  C10. The only network call a submission can issue is one POST to
  /api/user/pw/update, issued exactly when the form passes the local checks, and its
  body holds the current password and the new password and nothing else. So two
  submissions that agree on the current password, on the new password and on whether
  they pass the checks issue the same requests, whatever their confirmation fields,
  error messages and loading flags are.
\<close>

theorem C10_request_independent_of_confirmation:
  "network_calls (snd (handleSubmit post s)) =
     (if passes_validation (formData s)
      then [Axios_post ''/api/user/pw/update''
              \<lparr>body_currentPassword = currentPassword (formData s),
               body_newPassword = newPassword (formData s)\<rparr>]
      else [])
   \<and> (currentPassword (formData s') = currentPassword (formData s)
      \<and> newPassword (formData s') = newPassword (formData s)
      \<and> passes_validation (formData s') = passes_validation (formData s)
      \<longrightarrow> network_calls (snd (handleSubmit post s')) = network_calls (snd (handleSubmit post s)))"
proof -
  have calls: "network_calls (snd (handleSubmit post t)) =
     (if passes_validation (formData t)
      then [Axios_post ''/api/user/pw/update''
              \<lparr>body_currentPassword = currentPassword (formData t),
               body_newPassword = newPassword (formData t)\<rparr>]
      else [])" for t
  proof (cases "passes_validation (formData t)")
    case True
    then show ?thesis
      by (simp add: handleSubmit_valid [OF True] Let_def network_calls_def is_network_call_def
               split: post_outcome.splits)
  next
    case False
    then show ?thesis
      by (simp add: handleSubmit_invalid network_calls_def)
  qed
  show ?thesis
    by (simp add: calls)
qed

theorem C10_request_independent_witness:
  "network_calls (snd (handleSubmit accepting_server
      (pw_state_of ''old-secret'' ''new-secret-1'' ''new-secret-1''))) =
     [Axios_post ''/api/user/pw/update''
        \<lparr>body_currentPassword = ''old-secret'', body_newPassword = ''new-secret-1''\<rparr>]
   \<and> network_calls (snd (handleSubmit accepting_server
        (pw_state_of ''old-secret'' ''new-secret-1'' ''typo-in-confirmation''))) =
     network_calls (snd (handleSubmit accepting_server
        (pw_state_of ''old-secret'' ''new-secret-1'' ''another-typo'')))"
  using C10_request_independent_of_confirmation
      [of accepting_server "pw_state_of ''old-secret'' ''new-secret-1'' ''new-secret-1''"
          "pw_state_of ''old-secret'' ''new-secret-1'' ''new-secret-1''"]
    C10_request_independent_of_confirmation
      [of accepting_server "pw_state_of ''old-secret'' ''new-secret-1'' ''another-typo''"
          "pw_state_of ''old-secret'' ''new-secret-1'' ''typo-in-confirmation''"]
  by (simp add: passes_validation_state_of) (simp add: pw_state_of_def)

section \<open>Properties of the history view\<close>

lemma join_with_Cons_Cons:
  "join_with sep ((c # w) # ws) = c # join_with sep (w # ws)"
  by (cases ws) simp_all

lemma split_on_not_Nil: "split_on sep s \<noteq> []"
  by (induction s) (auto split: list.splits)

text \<open>Splitting and joining are inverse, and no part contains the separator.\<close>

lemma join_with_split_on: "join_with sep (split_on sep s) = s"
proof (induction s)
  case Nil
  show ?case by simp
next
  case (Cons c cs)
  obtain w ws where parts: "split_on sep cs = w # ws"
    using split_on_not_Nil [of sep cs] by (cases "split_on sep cs") auto
  show ?case
  proof (cases "c = sep")
    case True
    then show ?thesis using Cons parts by simp
  next
    case False
    then show ?thesis using Cons parts by (simp add: join_with_Cons_Cons)
  qed
qed

lemma split_on_parts_free: "w \<in> set (split_on sep s) \<Longrightarrow> sep \<notin> set w"
  by (induction s arbitrary: w) (auto split: if_splits list.splits)

lemma capitalize_Nil: "capitalize up [] = up []"
  by (simp add: capitalize_def)

lemma capitalize_Cons: "capitalize up (c # cs) = up [c] @ cs"
  by (simp add: capitalize_def)

lemma formatValue_missing:
  "falsy v \<Longrightarrow> formatValue up v = ''Not provided''"
  by (auto simp: falsy_def formatValue_def split: option.splits)

lemma formatValue_tokens:
  "formatValue up (Some ''not-sure'') = ''Not sure''"
  "formatValue up (Some ''varies'') = ''Varies''"
  "formatValue up (Some ''under-13'') = ''Under 13''"
  "formatValue up (Some ''8-plus'') = ''8+ days''"
  by (simp_all add: formatValue_def)

lemma formatValue_other:
  "x \<noteq> [] \<Longrightarrow> x \<notin> set [''not-sure'', ''varies'', ''under-13'', ''8-plus''] \<Longrightarrow>
   formatValue up (Some x) =
     join_with (CHR ''-'') (map (capitalize up) (split_on (CHR ''-'') x))"
  by (simp add: formatValue_def)

text \<open>The two values of the example that are no tokens, split at their hyphens.\<close>

lemma split_on_irregular_periods:
  "split_on (CHR ''-'') ''irregular-periods'' = [''irregular'', ''periods'']"
  by simp

lemma split_on_18_24: "split_on (CHR ''-'') ''18-24'' = [''18'', ''24'']"
  by simp

lemma formatValue_irregular_periods:
  assumes "up ''i'' = ''I''" and "up ''p'' = ''P''"
  shows "formatValue up (Some ''irregular-periods'') = ''Irregular-Periods''"
proof -
  have "formatValue up (Some ''irregular-periods'') =
      join_with (CHR ''-'') (map (capitalize up) (split_on (CHR ''-'') ''irregular-periods''))"
    by (rule formatValue_other) simp_all
  then show ?thesis
    unfolding split_on_irregular_periods by (simp add: capitalize_def assms)
qed

lemma formatValue_18_24:
  assumes "up ''1'' = ''1''" and "up ''2'' = ''2''"
  shows "formatValue up (Some ''18-24'') = ''18-24''"
proof -
  have "formatValue up (Some ''18-24'') =
      join_with (CHR ''-'') (map (capitalize up) (split_on (CHR ''-'') ''18-24''))"
    by (rule formatValue_other) simp_all
  then show ?thesis
    unfolding split_on_18_24 by (simp add: capitalize_def assms)
qed

lemma ageSuffix_cases:
  "ageSuffix a = (if falsy a \<or> a = Some ''under-13'' then [] else '' years'')"
  by (simp add: ageSuffix_def)

lemma cycleSuffix_cases:
  "cycleSuffix c =
     (if falsy c \<or> c = Some ''other'' \<or> c = Some ''varies'' \<or> c = Some ''not-sure''
      then [] else '' days'')"
  by (simp add: cycleSuffix_def)

lemma renderCard_fields:
  "badge (renderCard up P F a) = formatValue up (opt pattern (assessment_data a))"
  "ageLine (renderCard up P F a) =
     ''Age: '' @ formatValue up (opt age (assessment_data a))
       @ ageSuffix (opt age (assessment_data a))"
  "cycleLine (renderCard up P F a) =
     ''Cycle Length: '' @ formatValue up (opt cycleLength (assessment_data a))
       @ cycleSuffix (opt cycleLength (assessment_data a))"
  "dateLabel (renderCard up P F a) = formatDate P F (opt date (assessment_data a))"
  by (simp_all add: renderCard_def Let_def)

lemma example_fields:
  "opt pattern (assessment_data example_assessment) = Some ''irregular-periods''"
  "opt age (assessment_data example_assessment) = Some ''18-24''"
  "opt cycleLength (assessment_data example_assessment) = Some ''not-sure''"
  "opt date (assessment_data example_assessment) = Some ''2024-03-05''"
  by (simp_all add: example_assessment_def opt_def)

lemma example_toUpperCase_letters:
  "example_toUpperCase ''i'' = ''I''" "example_toUpperCase ''p'' = ''P''"
  "example_toUpperCase ''1'' = ''1''" "example_toUpperCase ''2'' = ''2''"
  "example_toUpperCase ''h'' = ''H''" "example_toUpperCase ''f'' = ''F''"
  by code_simp+

text \<open>
  C1. Every card of the history view formats its fields by the fixed mapping, whatever
  the language's \<open>toUpperCase\<close> does (written \<open>up\<close>). A missing value (\<open>undefined\<close> or
  the empty string, the values \<open>!value\<close> accepts) is rendered "Not provided"; not-sure,
  varies, under-13 and 8-plus are rendered "Not sure", "Varies", "Under 13" and
  "8+ days"; any other value is split at its hyphens, in each part the first code unit
  is replaced by its upper case and the rest kept, and the parts are joined with
  hyphens again. The badge is the formatted pattern. The age line is "Age: ", the
  formatted age and then " years" exactly when the age is present and not under-13; the
  cycle line is "Cycle Length: ", the formatted cycle length and then " days" exactly
  when the cycle length is present and none of other, varies, not-sure. The assessment
  of the example has badge "Irregular-Periods", age line "Age: 18-24 years" and cycle
  line "Cycle Length: Not sure", given only that the upper case of i is I, that of p is
  P, and that the digits 1 and 2 are their own upper case.
\<close>

theorem C1_history_field_formatting:
  "(falsy v \<longrightarrow> formatValue up v = ''Not provided'')
   \<and> formatValue up (Some ''not-sure'') = ''Not sure''
   \<and> formatValue up (Some ''varies'') = ''Varies''
   \<and> formatValue up (Some ''under-13'') = ''Under 13''
   \<and> formatValue up (Some ''8-plus'') = ''8+ days''
   \<and> (x \<noteq> [] \<and> x \<notin> set [''not-sure'', ''varies'', ''under-13'', ''8-plus''] \<longrightarrow>
        formatValue up (Some x) =
          join_with (CHR ''-'') (map (capitalize up) (split_on (CHR ''-'') x)))
   \<and> capitalize up [] = up []
   \<and> capitalize up (c # cs) = up [c] @ cs
   \<and> join_with (CHR ''-'') (split_on (CHR ''-'') x) = x
   \<and> badge (renderCard up P F a) = formatValue up (opt pattern (assessment_data a))
   \<and> ageLine (renderCard up P F a) =
        ''Age: '' @ formatValue up (opt age (assessment_data a))
        @ (if \<not> falsy (opt age (assessment_data a))
              \<and> opt age (assessment_data a) \<noteq> Some ''under-13''
           then '' years'' else [])
   \<and> cycleLine (renderCard up P F a) =
        ''Cycle Length: '' @ formatValue up (opt cycleLength (assessment_data a))
        @ (if \<not> falsy (opt cycleLength (assessment_data a))
              \<and> opt cycleLength (assessment_data a) \<noteq> Some ''other''
              \<and> opt cycleLength (assessment_data a) \<noteq> Some ''varies''
              \<and> opt cycleLength (assessment_data a) \<noteq> Some ''not-sure''
           then '' days'' else [])
   \<and> (up ''i'' = ''I'' \<and> up ''p'' = ''P'' \<and> up ''1'' = ''1'' \<and> up ''2'' = ''2'' \<longrightarrow>
        badge (renderCard up P F example_assessment) = ''Irregular-Periods''
      \<and> ageLine (renderCard up P F example_assessment) = ''Age: 18-24 years''
      \<and> cycleLine (renderCard up P F example_assessment) = ''Cycle Length: Not sure'')"
proof -
  have ex: "badge (renderCard up P F example_assessment) = ''Irregular-Periods''
      \<and> ageLine (renderCard up P F example_assessment) = ''Age: 18-24 years''
      \<and> cycleLine (renderCard up P F example_assessment) = ''Cycle Length: Not sure''"
    if "up ''i'' = ''I''" "up ''p'' = ''P''" "up ''1'' = ''1''" "up ''2'' = ''2''"
    using that
    by (simp add: renderCard_fields example_fields formatValue_irregular_periods
          formatValue_18_24 formatValue_tokens ageSuffix_cases cycleSuffix_cases falsy_def)
  have lines: "ageLine (renderCard up P F a) =
        ''Age: '' @ formatValue up (opt age (assessment_data a))
        @ (if \<not> falsy (opt age (assessment_data a))
              \<and> opt age (assessment_data a) \<noteq> Some ''under-13''
           then '' years'' else [])"
     "cycleLine (renderCard up P F a) =
        ''Cycle Length: '' @ formatValue up (opt cycleLength (assessment_data a))
        @ (if \<not> falsy (opt cycleLength (assessment_data a))
              \<and> opt cycleLength (assessment_data a) \<noteq> Some ''other''
              \<and> opt cycleLength (assessment_data a) \<noteq> Some ''varies''
              \<and> opt cycleLength (assessment_data a) \<noteq> Some ''not-sure''
           then '' days'' else [])"
    by (simp_all add: renderCard_fields ageSuffix_cases cycleSuffix_cases)
  show ?thesis
    using ex lines formatValue_missing [of v up] formatValue_tokens [of up]
      formatValue_other [of x up] capitalize_Nil [of up] capitalize_Cons [of up c cs]
      join_with_split_on [of "CHR ''-''" x] renderCard_fields(1) [of up P F a]
    by blast
qed

theorem C1_history_field_formatting_witness:
  "falsy None \<and> formatValue example_toUpperCase None = ''Not provided''
   \<and> formatValue example_toUpperCase (Some ''heavy-flow'') = ''Heavy-Flow''
   \<and> example_toUpperCase ''i'' = ''I'' \<and> example_toUpperCase ''p'' = ''P''
   \<and> example_toUpperCase ''1'' = ''1'' \<and> example_toUpperCase ''2'' = ''2''
   \<and> badge (renderCard example_toUpperCase example_parseISO example_format example_assessment)
       = ''Irregular-Periods''
   \<and> ageLine (renderCard example_toUpperCase example_parseISO example_format example_assessment)
       = ''Age: 18-24 years''
   \<and> cycleLine (renderCard example_toUpperCase example_parseISO example_format example_assessment)
       = ''Cycle Length: Not sure''"
proof -
  note t = C1_history_field_formatting [of None example_toUpperCase "''heavy-flow''"
        "CHR ''h''" "''eavy''" example_parseISO example_format example_assessment]
  note l = example_toUpperCase_letters(1-4)
  have f: "falsy None" by (simp add: falsy_def)
  have ne: "''heavy-flow'' \<noteq> []
      \<and> ''heavy-flow'' \<notin> set [''not-sure'', ''varies'', ''under-13'', ''8-plus'']"
    by simp
  from t f have a: "formatValue example_toUpperCase None = ''Not provided''"
    by blast
  from t ne have "formatValue example_toUpperCase (Some ''heavy-flow'') =
      join_with (CHR ''-'') (map (capitalize example_toUpperCase)
        (split_on (CHR ''-'') ''heavy-flow''))"
    by blast
  also have "\<dots> = ''Heavy-Flow''"
    by code_simp
  finally have b: "formatValue example_toUpperCase (Some ''heavy-flow'') = ''Heavy-Flow''" .
  from t l have c:
    "badge (renderCard example_toUpperCase example_parseISO example_format example_assessment)
       = ''Irregular-Periods''
   \<and> ageLine (renderCard example_toUpperCase example_parseISO example_format example_assessment)
       = ''Age: 18-24 years''
   \<and> cycleLine (renderCard example_toUpperCase example_parseISO example_format example_assessment)
       = ''Cycle Length: Not sure''"
    by blast
  from f a b c l show ?thesis by blast
qed

text \<open>
  C6. The date formatter returns "Unknown date" for a missing value (\<open>undefined\<close> or
  the empty string), "Invalid date" for a value that \<open>parseISO\<close> cannot parse (it
  returns the invalid date, or throws), and otherwise what \<open>format\<close> makes of the parsed
  date with the pattern "MMM d, yyyy". It returns a string on every input and for every
  behaviour of the library: an exception of \<open>parseISO\<close> or of \<open>format\<close> ends in
  "Invalid date", not in a crash.
\<close>

theorem C6_formatDate_total:
  "(falsy x \<longrightarrow> formatDate P F x = ''Unknown date'')
   \<and> (ds \<noteq> [] \<and> (P ds = Thrown \<or> P ds = Returned Invalid_Date) \<longrightarrow>
        formatDate P F (Some ds) = ''Invalid date'')
   \<and> (ds \<noteq> [] \<and> P ds = Returned (Valid_Date d) \<and>
        F (Valid_Date d) ''MMM d, yyyy'' = Returned label \<longrightarrow>
        formatDate P F (Some ds) = label)
   \<and> (ds \<noteq> [] \<and> P ds = Returned (Valid_Date d) \<and>
        F (Valid_Date d) ''MMM d, yyyy'' = Thrown \<longrightarrow>
        formatDate P F (Some ds) = ''Invalid date'')
   \<and> (formatDate P F x = ''Unknown date'' \<or> formatDate P F x = ''Invalid date''
      \<or> (\<exists>s v. x = Some s \<and> s \<noteq> [] \<and> P s = Returned (Valid_Date v)
              \<and> F (Valid_Date v) ''MMM d, yyyy'' = Returned (formatDate P F x)))"
  by (auto simp: formatDate_def falsy_def isValid_def
           split: option.splits attempt.splits js_date.splits)

theorem C6_formatDate_total_witness:
  "falsy (Some []) \<and> formatDate example_parseISO example_format (Some []) = ''Unknown date''
   \<and> formatDate example_parseISO example_format (Some ''2024-03-05'') = ''Mar 5, 2024''
   \<and> formatDate example_parseISO example_format (Some ''yesterday'') = ''Invalid date''"
proof -
  have "falsy (Some [])" by (simp add: falsy_def)
  moreover have "example_parseISO ''2024-03-05'' = Returned (Valid_Date (2024, 3, 5))"
    "example_format (Valid_Date (2024, 3, 5)) ''MMM d, yyyy'' = Returned ''Mar 5, 2024''"
    "example_parseISO ''yesterday'' = Returned Invalid_Date"
    by (simp_all add: example_parseISO_def example_format_def)
  ultimately show ?thesis
    using C6_formatDate_total [of "Some []" example_parseISO example_format "''2024-03-05''"
        "(2024, 3, 5)" "''Mar 5, 2024''"]
      C6_formatDate_total [of "Some []" example_parseISO example_format "''yesterday''"]
    by simp
qed

section \<open>Properties of the chat surfaces\<close>

subsection \<open>Trimming and the text to send\<close>

lemma trim_Nil_iff: "trim s = [] \<longleftrightarrow> (\<forall>c\<in>set s. is_whitespace c)"
proof
  assume "trim s = []"
  then have rest: "\<forall>c\<in>set (dropWhile is_whitespace s). is_whitespace c"
    by (simp add: trim_def)
  have "dropWhile is_whitespace s = []"
  proof (rule ccontr)
    assume n: "dropWhile is_whitespace s \<noteq> []"
    then have "\<not> is_whitespace (hd (dropWhile is_whitespace s))"
      by (rule hd_dropWhile)
    moreover have "hd (dropWhile is_whitespace s) \<in> set (dropWhile is_whitespace s)"
      using n by simp
    ultimately show False using rest by blast
  qed
  then show "\<forall>c\<in>set s. is_whitespace c"
    by simp
next
  assume "\<forall>c\<in>set s. is_whitespace c"
  then show "trim s = []"
    by (auto simp: trim_def dest: set_dropWhileD)
qed

lemma textToSend_Nil_iff:
  "textToSend mt inp = [] \<longleftrightarrow> falsy mt \<and> (\<forall>ch\<in>set inp. is_whitespace ch)"
  by (auto simp: textToSend_def falsy_def trim_Nil_iff split: option.splits)

subsection \<open>Messages\<close>

lemma role_user_message: "role (user_message t) = User"
  by (simp add: user_message_def)

lemma role_apology: "role apology = Assistant"
  by (simp add: apology_def)

lemma role_ai_message: "role (ai_message e ud t) = Assistant"
  by (simp add: ai_message_def role_apology split: settled.splits)

lemma role_assistant_reply: "role (assistant_reply e t) = Assistant"
  by (simp add: assistant_reply_def role_apology role_ai_message split: attempt.splits)

lemma assistant_reply_neq_user: "assistant_reply e t \<noteq> user_message m"
  using role_assistant_reply [of e t] role_user_message [of m] by auto

lemma assistant_reply_cases:
  "read_userData e = Thrown \<Longrightarrow> assistant_reply e t = apology"
  "read_userData e = Returned ud \<Longrightarrow> getAIFeedback e ud t = Rejected \<Longrightarrow>
     assistant_reply e t = apology"
  "read_userData e = Returned ud \<Longrightarrow> getAIFeedback e ud t = Resolved a \<Longrightarrow>
     assistant_reply e t = \<lparr>role = Assistant, content = a\<rparr>"
  by (simp_all add: assistant_reply_def ai_message_def)

subsection \<open>The traces of the handlers\<close>

lemma ChatModal_handleSend_noop:
  "textToSend mt (input c) = [] \<or> isLoading c \<Longrightarrow> ChatModal_handleSend e mt c = []"
  by (auto simp: ChatModal_handleSend_def Let_def)

lemma ChatModal_handleSend_proceeds:
  assumes "textToSend mt (input c) \<noteq> []" "\<not> isLoading c"
  shows "ChatModal_handleSend e mt c =
     [SetInput [], AppendMessage (user_message (textToSend mt (input c))), SetIsLoading True]
     @ (case read_userData e of
          Thrown \<Rightarrow> []
        | Returned ud \<Rightarrow> [Call_getAIFeedback ud (textToSend mt (input c))])
     @ [AppendMessage (assistant_reply e (textToSend mt (input c))), SetIsLoading False]"
  using assms
  by (simp add: ChatModal_handleSend_def Let_def assistant_reply_def split: attempt.splits)

lemma FullscreenChat_handleSend_noop:
  "textToSend mt (input c) = [] \<or> isLoading c \<Longrightarrow> FullscreenChat_handleSend e mt c = []"
  by (auto simp: FullscreenChat_handleSend_def FullscreenChat_handleSend_sync_def
        FullscreenChat_handleSend_rest_def Let_def)

text \<open>What the full-screen handler does between the user message and the AI request.\<close>

lemma FullscreenChat_handleSend_proceeds:
  assumes "textToSend mt (input c) \<noteq> []" "\<not> isLoading c"
  shows "FullscreenChat_handleSend e mt c =
     [SetInput [], AppendMessage (user_message (textToSend mt (input c))), SetIsLoading True]
     @ (case read_userData e of
          Thrown \<Rightarrow> []
        | Returned ud \<Rightarrow>
            Call_sendMessage (messagePayload e (textToSend mt (input c)))
            # (case sendMessage e (messagePayload e (textToSend mt (input c))) of
                 Resolved conversationId \<Rightarrow>
                   if \<not> falsy conversationId
                   then SetCurrentConversationId conversationId # fetchConversations e
                   else []
               | Rejected \<Rightarrow> [Toast_error ''Failed to send message. Please try again.''])
            @ [Call_getAIFeedback ud (textToSend mt (input c))])
     @ [AppendMessage (assistant_reply e (textToSend mt (input c))), SetIsLoading False]"
  using assms
  by (simp add: FullscreenChat_handleSend_def FullscreenChat_handleSend_sync_def
        FullscreenChat_handleSend_rest_def Let_def assistant_reply_def split: attempt.splits)

lemma filter_updates_fetchConversations:
  "filter is_message_update (fetchConversations e) = []"
  by (simp add: fetchConversations_def is_message_update_def split: settled.splits)

lemma filter_updates_ChatModal:
  assumes "textToSend mt (input c) \<noteq> []" "\<not> isLoading c"
  shows "filter is_message_update (ChatModal_handleSend e mt c) =
     [AppendMessage (user_message (textToSend mt (input c))),
      AppendMessage (assistant_reply e (textToSend mt (input c)))]"
  by (simp add: ChatModal_handleSend_proceeds [OF assms] is_message_update_def
        split: attempt.splits)

lemma filter_updates_Fullscreen:
  assumes "textToSend mt (input c) \<noteq> []" "\<not> isLoading c"
  shows "filter is_message_update (FullscreenChat_handleSend e mt c) =
     [AppendMessage (user_message (textToSend mt (input c))),
      AppendMessage (assistant_reply e (textToSend mt (input c)))]"
  using filter_updates_fetchConversations [of e]
  by (simp add: FullscreenChat_handleSend_proceeds [OF assms] is_message_update_def
        split: attempt.splits settled.splits)

subsection \<open>Running a trace\<close>

lemma run_modal_Nil: "run_modal [] s = s"
  by (simp add: run_modal_def)

lemma run_modal_Cons: "run_modal (a # tr) s = run_modal tr (apply_action a s)"
  by (simp add: run_modal_def)

lemma run_fullscreen_Nil: "run_fullscreen [] s = s"
  by (simp add: run_fullscreen_def)

lemma run_fullscreen_Cons:
  "run_fullscreen (a # tr) s = run_fullscreen tr (apply_fullscreen a s)"
  by (simp add: run_fullscreen_def)

lemma run_fullscreen_append:
  "run_fullscreen (tr @ tr') s = run_fullscreen tr' (run_fullscreen tr s)"
  by (simp add: run_fullscreen_def)

text \<open>Refreshing the conversation list touches only the list.\<close>

lemma run_fetchConversations:
  "messages (run_fullscreen (fetchConversations e) s) = messages s"
  "input (run_fullscreen (fetchConversations e) s) = input s"
  "isLoading (run_fullscreen (fetchConversations e) s) = isLoading s"
  "hasSentInitialMessage (run_fullscreen (fetchConversations e) s) = hasSentInitialMessage s"
  "currentConversationId (run_fullscreen (fetchConversations e) s) = currentConversationId s"
  by (simp_all add: fetchConversations_def run_fullscreen_def apply_fullscreen_def
        apply_action_def split: settled.splits)

lemma run_ChatModal_handleSend:
  assumes "textToSend mt (input c) \<noteq> []" "\<not> isLoading c"
  shows "run_modal (ChatModal_handleSend e mt c) s =
     s\<lparr>messages := messages s @ [user_message (textToSend mt (input c)),
                                  assistant_reply e (textToSend mt (input c))],
       input := [], isLoading := False\<rparr>"
  by (simp add: ChatModal_handleSend_proceeds [OF assms] run_modal_def apply_action_def
        split: attempt.splits)

text \<open>
  What the updates of the full-screen handler make of a state. For the message list
  this is the component's list after the send only if the send triggers no load.
\<close>

lemma run_Fullscreen_handleSend:
  assumes "textToSend mt (input c) \<noteq> []" "\<not> isLoading c"
  shows "messages (run_fullscreen (FullscreenChat_handleSend e mt c) s) =
           messages s @ [user_message (textToSend mt (input c)),
                         assistant_reply e (textToSend mt (input c))]"
    and "input (run_fullscreen (FullscreenChat_handleSend e mt c) s) = []"
    and "isLoading (run_fullscreen (FullscreenChat_handleSend e mt c) s) = False"
    and "hasSentInitialMessage (run_fullscreen (FullscreenChat_handleSend e mt c) s) =
           hasSentInitialMessage s"
  by (simp_all add: FullscreenChat_handleSend_proceeds [OF assms] run_fullscreen_Cons
        run_fullscreen_Nil run_fullscreen_append run_fetchConversations
        apply_fullscreen_def apply_action_def
        split: attempt.splits settled.splits)

subsection \<open>Sending\<close>

lemma last_ChatModal_handleSend:
  assumes "textToSend mt (input c) \<noteq> []" "\<not> isLoading c"
  shows "last (ChatModal_handleSend e mt c) = SetIsLoading False"
  by (simp add: ChatModal_handleSend_proceeds [OF assms])

lemma last_Fullscreen_handleSend:
  assumes "textToSend mt (input c) \<noteq> []" "\<not> isLoading c"
  shows "last (FullscreenChat_handleSend e mt c) = SetIsLoading False"
  by (simp add: FullscreenChat_handleSend_proceeds [OF assms])

lemma take_ChatModal_handleSend:
  assumes "textToSend mt (input c) \<noteq> []" "\<not> isLoading c"
  shows "take 3 (ChatModal_handleSend e mt c) =
    [SetInput [], AppendMessage (user_message (textToSend mt (input c))), SetIsLoading True]"
  by (simp add: ChatModal_handleSend_proceeds [OF assms])

lemma take_Fullscreen_handleSend:
  assumes "textToSend mt (input c) \<noteq> []" "\<not> isLoading c"
  shows "take 3 (FullscreenChat_handleSend e mt c) =
    [SetInput [], AppendMessage (user_message (textToSend mt (input c))), SetIsLoading True]"
  by (simp add: FullscreenChat_handleSend_proceeds [OF assms])

subsection \<open>The effect on the conversation id\<close>

lemma currentConversationId_effect_loads:
  fixes e :: "'j env"
  shows "currentConversationId_effect e cur v =
     concat (map (loadConversation e)
       (loads_triggered cur ([SetCurrentConversationId v] :: 'j action list)))"
  by (simp add: currentConversationId_effect_def split: option.splits)

text \<open>When the load resolves, the list is the one it brought; the rest of the state stays.\<close>

lemma run_loadConversation:
  "messages (run_fullscreen (loadConversation e i) s) =
     (case getConversation e i of Resolved msgs \<Rightarrow> msgs | Rejected \<Rightarrow> messages s)"
  "input (run_fullscreen (loadConversation e i) s) = input s"
  "isLoading (run_fullscreen (loadConversation e i) s) = isLoading s"
  "hasSentInitialMessage (run_fullscreen (loadConversation e i) s) = hasSentInitialMessage s"
  "currentConversationId (run_fullscreen (loadConversation e i) s) = currentConversationId s"
  by (simp_all add: loadConversation_def run_fullscreen_def apply_fullscreen_def
        apply_action_def split: settled.splits)

lemma loads_triggered_fetchConversations:
  "loads_triggered cur (fetchConversations e @ tr) = loads_triggered cur tr"
  by (simp add: fetchConversations_def split: settled.splits)

text \<open>
  A send on the full-screen surface triggers a load exactly when the message API
  returns a conversation id that is not empty and not the one the component has.
\<close>

lemma loads_triggered_Fullscreen_handleSend:
  assumes "textToSend mt (input c) \<noteq> []" "\<not> isLoading c"
  shows "loads_triggered cur (FullscreenChat_handleSend e mt c) =
     (case read_userData e of
        Thrown \<Rightarrow> []
      | Returned ud \<Rightarrow>
          (case sendMessage e (messagePayload e (textToSend mt (input c))) of
             Rejected \<Rightarrow> []
           | Resolved v \<Rightarrow>
               (case v of
                  None \<Rightarrow> []
                | Some i \<Rightarrow> if i \<noteq> [] \<and> v \<noteq> cur then [i] else [])))"
  by (simp add: FullscreenChat_handleSend_proceeds [OF assms] falsy_def
        loads_triggered_fetchConversations
        split: attempt.splits settled.splits option.splits)

lemma loads_triggered_Fullscreen_handleSend_noop:
  "textToSend mt (input c) = [] \<or> isLoading c \<Longrightarrow>
   loads_triggered cur (FullscreenChat_handleSend e mt c) = []"
  by (simp add: FullscreenChat_handleSend_noop)

subsection \<open>The order of a send\<close>

text \<open>
  C2. Take a send that goes ahead on either surface: the text to send is not empty and
  the handler saw no send in progress. Its first three steps clear the input, append
  the user message and raise the loading flag, before any call is made. The only other
  change the handler makes to the transcript is to append one assistant message, later:
  the reply of the AI service when that succeeded, the fixed apology when it failed or
  when the session data could not be read. Its last step lowers the loading flag, so
  loading is false when the send is over, whether the AI service succeeded or failed.
  On the modal the transcript then ends with the user message followed by the assistant
  message. On the full-screen surface it does so whenever the send leaves the
  conversation id as it is (the message API failed, returned no id, or returned the id
  the component has); a send that changes the id also starts the load of that
  conversation, and what the list holds then depends on what the load brings.
\<close>

theorem C2_user_message_before_reply:
  "(textToSend mt (input c) \<noteq> [] \<and> \<not> isLoading c \<longrightarrow>
      take 3 (ChatModal_handleSend e mt c) =
        [SetInput [], AppendMessage (user_message (textToSend mt (input c))), SetIsLoading True]
    \<and> filter is_message_update (ChatModal_handleSend e mt c) =
        [AppendMessage (user_message (textToSend mt (input c))),
         AppendMessage (assistant_reply e (textToSend mt (input c)))]
    \<and> last (ChatModal_handleSend e mt c) = SetIsLoading False
    \<and> messages (run_modal (ChatModal_handleSend e mt c) s) =
        messages s @ [user_message (textToSend mt (input c)),
                      assistant_reply e (textToSend mt (input c))]
    \<and> isLoading (run_modal (ChatModal_handleSend e mt c) s) = False)
   \<and> (textToSend mt (input c') \<noteq> [] \<and> \<not> isLoading c' \<longrightarrow>
      take 3 (FullscreenChat_handleSend e mt c') =
        [SetInput [], AppendMessage (user_message (textToSend mt (input c'))), SetIsLoading True]
    \<and> filter is_message_update (FullscreenChat_handleSend e mt c') =
        [AppendMessage (user_message (textToSend mt (input c'))),
         AppendMessage (assistant_reply e (textToSend mt (input c')))]
    \<and> last (FullscreenChat_handleSend e mt c') = SetIsLoading False
    \<and> isLoading (run_fullscreen (FullscreenChat_handleSend e mt c') s') = False
    \<and> (loads_triggered (currentConversationId s') (FullscreenChat_handleSend e mt c') = [] \<longrightarrow>
         messages (run_fullscreen (FullscreenChat_handleSend e mt c') s') =
           messages s' @ [user_message (textToSend mt (input c')),
                          assistant_reply e (textToSend mt (input c'))])
    \<and> (read_userData e = Thrown
        \<or> sendMessage e (messagePayload e (textToSend mt (input c'))) = Rejected
        \<or> sendMessage e (messagePayload e (textToSend mt (input c'))) = Resolved None
        \<or> sendMessage e (messagePayload e (textToSend mt (input c'))) = Resolved (Some [])
        \<or> sendMessage e (messagePayload e (textToSend mt (input c'))) =
             Resolved (currentConversationId s') \<longrightarrow>
         loads_triggered (currentConversationId s') (FullscreenChat_handleSend e mt c') = [])
    \<and> (\<forall>ud i. read_userData e = Returned ud
          \<and> sendMessage e (messagePayload e (textToSend mt (input c'))) = Resolved (Some i)
          \<and> i \<noteq> [] \<and> currentConversationId s' \<noteq> Some i \<longrightarrow>
         loads_triggered (currentConversationId s') (FullscreenChat_handleSend e mt c') = [i]))
   \<and> role (user_message t) = User \<and> content (user_message t) = t
   \<and> role (assistant_reply e t) = Assistant
   \<and> (\<forall>ud a. read_userData e = Returned ud \<and> getAIFeedback e ud t = Resolved a \<longrightarrow>
        content (assistant_reply e t) = a)
   \<and> (\<forall>ud. read_userData e = Returned ud \<and> getAIFeedback e ud t = Rejected \<longrightarrow>
        assistant_reply e t = apology)
   \<and> (read_userData e = Thrown \<longrightarrow> assistant_reply e t = apology)"
proof -
  have modal: "take 3 (ChatModal_handleSend e mt c) =
        [SetInput [], AppendMessage (user_message (textToSend mt (input c))), SetIsLoading True]
    \<and> filter is_message_update (ChatModal_handleSend e mt c) =
        [AppendMessage (user_message (textToSend mt (input c))),
         AppendMessage (assistant_reply e (textToSend mt (input c)))]
    \<and> last (ChatModal_handleSend e mt c) = SetIsLoading False
    \<and> messages (run_modal (ChatModal_handleSend e mt c) s) =
        messages s @ [user_message (textToSend mt (input c)),
                      assistant_reply e (textToSend mt (input c))]
    \<and> isLoading (run_modal (ChatModal_handleSend e mt c) s) = False"
    if "textToSend mt (input c) \<noteq> []" "\<not> isLoading c"
    using that
    by (simp add: take_ChatModal_handleSend filter_updates_ChatModal last_ChatModal_handleSend
          run_ChatModal_handleSend)
  have full: "take 3 (FullscreenChat_handleSend e mt c') =
        [SetInput [], AppendMessage (user_message (textToSend mt (input c'))), SetIsLoading True]
    \<and> filter is_message_update (FullscreenChat_handleSend e mt c') =
        [AppendMessage (user_message (textToSend mt (input c'))),
         AppendMessage (assistant_reply e (textToSend mt (input c')))]
    \<and> last (FullscreenChat_handleSend e mt c') = SetIsLoading False
    \<and> isLoading (run_fullscreen (FullscreenChat_handleSend e mt c') s') = False
    \<and> messages (run_fullscreen (FullscreenChat_handleSend e mt c') s') =
           messages s' @ [user_message (textToSend mt (input c')),
                          assistant_reply e (textToSend mt (input c'))]"
    if "textToSend mt (input c') \<noteq> []" "\<not> isLoading c'"
    using that
    by (simp add: take_Fullscreen_handleSend filter_updates_Fullscreen
          last_Fullscreen_handleSend run_Fullscreen_handleSend)
  have stays: "loads_triggered (currentConversationId s') (FullscreenChat_handleSend e mt c') = []"
    if "textToSend mt (input c') \<noteq> []" "\<not> isLoading c'"
      and "read_userData e = Thrown
        \<or> sendMessage e (messagePayload e (textToSend mt (input c'))) = Rejected
        \<or> sendMessage e (messagePayload e (textToSend mt (input c'))) = Resolved None
        \<or> sendMessage e (messagePayload e (textToSend mt (input c'))) = Resolved (Some [])
        \<or> sendMessage e (messagePayload e (textToSend mt (input c'))) =
             Resolved (currentConversationId s')"
    using that(3)
    by (auto simp: loads_triggered_Fullscreen_handleSend [OF that(1,2)]
          split: attempt.splits settled.splits option.splits)
  have changes: "loads_triggered (currentConversationId s') (FullscreenChat_handleSend e mt c') = [i]"
    if "textToSend mt (input c') \<noteq> []" "\<not> isLoading c'"
      and "read_userData e = Returned ud"
      and "sendMessage e (messagePayload e (textToSend mt (input c'))) = Resolved (Some i)"
      and "i \<noteq> []" "currentConversationId s' \<noteq> Some i" for ud i
    using that(3-6)
    by (auto simp: loads_triggered_Fullscreen_handleSend [OF that(1,2)])
  have msgs: "role (user_message t) = User \<and> content (user_message t) = t
      \<and> role (assistant_reply e t) = Assistant"
    by (simp add: user_message_def role_assistant_reply)
  have replies: "(\<forall>ud a. read_userData e = Returned ud \<and> getAIFeedback e ud t = Resolved a \<longrightarrow>
        content (assistant_reply e t) = a)
   \<and> (\<forall>ud. read_userData e = Returned ud \<and> getAIFeedback e ud t = Rejected \<longrightarrow>
        assistant_reply e t = apology)
   \<and> (read_userData e = Thrown \<longrightarrow> assistant_reply e t = apology)"
    by (auto simp: assistant_reply_cases)
  from modal full stays changes msgs replies show ?thesis by blast
qed

lemma read_userData_example: "read_userData example_env = Returned example_userData"
  by (simp add: read_userData_def example_env_def example_userData_def getItem_or_def)

lemma read_userData_failing_ai: "read_userData failing_ai_env = Returned example_userData"
  by (simp add: read_userData_def failing_ai_env_def example_env_def example_userData_def
        getItem_or_def)

lemma assistant_reply_example:
  "assistant_reply example_env t = \<lparr>role = Assistant, content = ''ok''\<rparr>"
  unfolding assistant_reply_def read_userData_example
  by (simp add: ai_message_def example_env_def)

lemma assistant_reply_failing_ai: "assistant_reply failing_ai_env t = apology"
  unfolding assistant_reply_def read_userData_failing_ai
  by (simp add: ai_message_def failing_ai_env_def example_env_def)

lemma read_userData_same_conversation:
  "read_userData same_conversation_env = Returned example_userData"
  by (simp add: read_userData_def same_conversation_env_def example_env_def
        example_userData_def getItem_or_def)

lemma assistant_reply_same_conversation:
  "assistant_reply same_conversation_env t = \<lparr>role = Assistant, content = ''ok''\<rparr>"
  unfolding assistant_reply_def read_userData_same_conversation
  by (simp add: ai_message_def same_conversation_env_def example_env_def)

theorem C2_user_message_before_reply_witness:
  "textToSend None (input (modal_mount_state\<lparr>input := ''hi ''\<rparr>)) = ''hi''
   \<and> \<not> isLoading (modal_mount_state\<lparr>input := ''hi ''\<rparr>)
   \<and> \<not> isLoading example_fullscreen_state
   \<and> messages (run_modal (ChatModal_handleSend failing_ai_env None
                 (modal_mount_state\<lparr>input := ''hi ''\<rparr>)) (modal_mount_state\<lparr>input := ''hi ''\<rparr>)) =
       [user_message ''hi'', apology]
   \<and> sendMessage same_conversation_env (messagePayload same_conversation_env ''more'') =
       Resolved (currentConversationId example_fullscreen_state)
   \<and> loads_triggered (currentConversationId example_fullscreen_state)
        (FullscreenChat_handleSend same_conversation_env (Some ''more'')
           example_fullscreen_state) = []
   \<and> messages (run_fullscreen (FullscreenChat_handleSend same_conversation_env (Some ''more'')
                 example_fullscreen_state) example_fullscreen_state) =
       messages example_fullscreen_state
       @ [user_message ''more'', \<lparr>role = Assistant, content = ''ok''\<rparr>]
   \<and> isLoading (run_fullscreen (FullscreenChat_handleSend same_conversation_env (Some ''more'')
                 example_fullscreen_state) example_fullscreen_state) = False"
proof -
  let ?m = "modal_mount_state\<lparr>input := ''hi ''\<rparr>"
  have t1: "textToSend None (input ?m) = ''hi''"
    by (simp add: textToSend_def trim_def is_whitespace_def)
  have t2: "textToSend (Some ''more'') (input example_fullscreen_state) = ''more''"
    by (simp add: textToSend_def)
  have l1: "\<not> isLoading ?m" and l2: "\<not> isLoading example_fullscreen_state"
    and m0: "messages ?m = []"
    by (simp_all add: modal_mount_state_def example_fullscreen_state_def)
  have sm: "sendMessage same_conversation_env (messagePayload same_conversation_env ''more'') =
       Resolved (currentConversationId example_fullscreen_state)"
    by (simp add: same_conversation_env_def example_fullscreen_state_def)
  have p1: "textToSend None (input ?m) \<noteq> [] \<and> \<not> isLoading ?m"
    using t1 l1 by simp
  have p2: "textToSend (Some ''more'') (input example_fullscreen_state) \<noteq> []
      \<and> \<not> isLoading example_fullscreen_state"
    using t2 l2 by simp
  note a = C2_user_message_before_reply [of None ?m failing_ai_env ?m example_fullscreen_state
      example_fullscreen_state "''hi''"]
  note b = C2_user_message_before_reply [of "Some ''more''" ?m same_conversation_env ?m
      example_fullscreen_state example_fullscreen_state "''hi''"]
  from a p1 have "messages (run_modal (ChatModal_handleSend failing_ai_env None ?m) ?m) =
      messages ?m @ [user_message (textToSend None (input ?m)),
                     assistant_reply failing_ai_env (textToSend None (input ?m))]"
    by blast
  then have r1: "messages (run_modal (ChatModal_handleSend failing_ai_env None ?m) ?m) =
      [user_message ''hi'', apology]"
    unfolding t1 m0 assistant_reply_failing_ai by simp
  from b p2 sm have r2: "loads_triggered (currentConversationId example_fullscreen_state)
        (FullscreenChat_handleSend same_conversation_env (Some ''more'')
           example_fullscreen_state) = []"
    unfolding t2 by blast
  from b p2 r2 have "messages (run_fullscreen (FullscreenChat_handleSend same_conversation_env
        (Some ''more'') example_fullscreen_state) example_fullscreen_state) =
      messages example_fullscreen_state
      @ [user_message (textToSend (Some ''more'') (input example_fullscreen_state)),
         assistant_reply same_conversation_env
           (textToSend (Some ''more'') (input example_fullscreen_state))]"
    by blast
  then have r3: "messages (run_fullscreen (FullscreenChat_handleSend same_conversation_env
        (Some ''more'') example_fullscreen_state) example_fullscreen_state) =
      messages example_fullscreen_state
      @ [user_message ''more'', \<lparr>role = Assistant, content = ''ok''\<rparr>]"
    unfolding t2 assistant_reply_same_conversation .
  from b p2 have r4: "isLoading (run_fullscreen (FullscreenChat_handleSend same_conversation_env
        (Some ''more'') example_fullscreen_state) example_fullscreen_state) = False"
    by blast
  from t1 l1 l2 r1 sm r2 r3 r4 show ?thesis by blast
qed

text \<open>
  C3, as the code has it. On either surface a send attempt does nothing at all, so that
  the message list, the input field and the loading flag stay as they are and no call
  is made, exactly when the handler saw a send in progress or the text to send is
  empty; and the text to send is empty exactly when no non-empty text was passed to the
  handler and the input field is empty or holds white space only. A text passed to the
  handler is not trimmed.
\<close>

theorem C3_blank_or_busy_send_is_noop:
  "(ChatModal_handleSend e mt c = [] \<longleftrightarrow>
      (falsy mt \<and> (\<forall>ch\<in>set (input c). is_whitespace ch)) \<or> isLoading c)
   \<and> (FullscreenChat_handleSend e mt c' = [] \<longleftrightarrow>
      (falsy mt \<and> (\<forall>ch\<in>set (input c'). is_whitespace ch)) \<or> isLoading c')
   \<and> ((falsy mt \<and> (\<forall>ch\<in>set (input c). is_whitespace ch)) \<or> isLoading c \<longrightarrow>
        run_modal (ChatModal_handleSend e mt c) s = s
      \<and> filter is_call (ChatModal_handleSend e mt c) = [])
   \<and> ((falsy mt \<and> (\<forall>ch\<in>set (input c'). is_whitespace ch)) \<or> isLoading c' \<longrightarrow>
        run_fullscreen (FullscreenChat_handleSend e mt c') s' = s'
      \<and> filter is_call (FullscreenChat_handleSend e mt c') = [])"
proof -
  have m: "ChatModal_handleSend e mt c = [] \<longleftrightarrow>
      (falsy mt \<and> (\<forall>ch\<in>set (input c). is_whitespace ch)) \<or> isLoading c"
  proof (cases "textToSend mt (input c) = [] \<or> isLoading c")
    case True
    then show ?thesis
      using ChatModal_handleSend_noop [of mt c e] by (auto simp: textToSend_Nil_iff)
  next
    case False
    then have "ChatModal_handleSend e mt c \<noteq> []"
      by (simp add: ChatModal_handleSend_proceeds)
    with False show ?thesis by (auto simp: textToSend_Nil_iff)
  qed
  have f: "FullscreenChat_handleSend e mt c' = [] \<longleftrightarrow>
      (falsy mt \<and> (\<forall>ch\<in>set (input c'). is_whitespace ch)) \<or> isLoading c'"
  proof (cases "textToSend mt (input c') = [] \<or> isLoading c'")
    case True
    then show ?thesis
      using FullscreenChat_handleSend_noop [of mt c' e] by (auto simp: textToSend_Nil_iff)
  next
    case False
    then have "FullscreenChat_handleSend e mt c' \<noteq> []"
      by (simp add: FullscreenChat_handleSend_proceeds)
    with False show ?thesis by (auto simp: textToSend_Nil_iff)
  qed
  show ?thesis
    using m f by (auto simp: run_modal_Nil run_fullscreen_Nil)
qed

theorem C3_blank_or_busy_send_witness:
  "falsy None \<and> input (modal_mount_state\<lparr>input := ''   ''\<rparr>) = ''   ''
   \<and> is_whitespace (CHR '' '')
   \<and> isLoading (example_fullscreen_state\<lparr>isLoading := True\<rparr>)
   \<and> ChatModal_handleSend example_env None (modal_mount_state\<lparr>input := ''   ''\<rparr>) = []
   \<and> run_fullscreen (FullscreenChat_handleSend example_env (Some ''more'')
        (example_fullscreen_state\<lparr>isLoading := True\<rparr>)) example_fullscreen_state
       = example_fullscreen_state"
proof -
  have "falsy None" by (simp add: falsy_def)
  moreover have "\<forall>ch\<in>set (input (modal_mount_state\<lparr>input := ''   ''\<rparr>)). is_whitespace ch"
    by (simp add: is_whitespace_def)
  moreover have "isLoading (example_fullscreen_state\<lparr>isLoading := True\<rparr>)" by simp
  moreover have "is_whitespace (CHR '' '')"
    by (simp add: is_whitespace_def)
  ultimately show ?thesis
    using C3_blank_or_busy_send_is_noop [of example_env None "modal_mount_state\<lparr>input := ''   ''\<rparr>"
        "example_fullscreen_state\<lparr>isLoading := True\<rparr>" modal_mount_state example_fullscreen_state]
      C3_blank_or_busy_send_is_noop [of example_env "Some ''more''" "modal_mount_state\<lparr>input := ''   ''\<rparr>"
        "example_fullscreen_state\<lparr>isLoading := True\<rparr>" modal_mount_state example_fullscreen_state]
    by (simp add: run_fullscreen_Nil)
qed

text \<open>
  The claim C3 as the specification words it fails for a text passed to the handler,
  such as an initial prompt: one that holds white space only is sent as it is.
\<close>

theorem C3_counterexample:
  "is_whitespace (CHR '' '')
   \<and> \<not> isLoading modal_mount_state
   \<and> filter is_call (ChatModal_handleSend example_env (Some ''  '') modal_mount_state) =
       [Call_getAIFeedback example_userData ''  '']
   \<and> messages (run_modal (ChatModal_handleSend example_env (Some ''  '') modal_mount_state)
        modal_mount_state) = [user_message ''  '', \<lparr>role = Assistant, content = ''ok''\<rparr>]"
proof -
  have t: "textToSend (Some ''  '') (input modal_mount_state) = ''  ''"
    by (simp add: textToSend_def)
  have l: "\<not> isLoading modal_mount_state" "messages modal_mount_state = []"
    by (simp_all add: modal_mount_state_def)
  note r = assistant_reply_example [of "''  ''"]
  have tr: "ChatModal_handleSend example_env (Some ''  '') modal_mount_state =
     [SetInput [], AppendMessage (user_message ''  ''), SetIsLoading True,
      Call_getAIFeedback example_userData ''  '',
      AppendMessage \<lparr>role = Assistant, content = ''ok''\<rparr>, SetIsLoading False]"
    using ChatModal_handleSend_proceeds [of "Some ''  ''" modal_mount_state example_env]
    by (simp add: t l r read_userData_example)
  show ?thesis
    by (simp add: tr l is_call_def is_whitespace_def run_modal_def apply_action_def)
qed

lemma filter_calls_fetchConversations:
  "filter is_call (fetchConversations e) = [Call_getHistory]"
  by (simp add: fetchConversations_def is_call_def split: settled.splits)

lemma Call_getHistory_in_fetchConversations: "Call_getHistory \<in> set (fetchConversations e)"
  by (simp add: fetchConversations_def)

lemma ChatModal_handleSend_never_persists:
  "Call_sendMessage p \<notin> set (ChatModal_handleSend e mt c)"
  by (simp add: ChatModal_handleSend_def Let_def split: attempt.splits)

lemma FullscreenChat_handleSend_unreadable:
  assumes "textToSend mt (input c) \<noteq> []" "\<not> isLoading c" "read_userData e = Thrown"
  shows "FullscreenChat_handleSend e mt c =
     [SetInput [], AppendMessage (user_message (textToSend mt (input c))), SetIsLoading True,
      AppendMessage apology, SetIsLoading False]"
  by (simp add: FullscreenChat_handleSend_proceeds [OF assms(1,2)] assms(3)
        assistant_reply_cases(1) [OF assms(3)])

text \<open>
  C5, as the code has it. The modal makes no persistence call, on any send. On the
  full-screen surface, a send that goes ahead and can read the session data calls the
  message-send endpoint with the user message, and then, whatever that call did, asks
  the AI service and appends the assistant message (reply or apology). When the
  message-send call resolves with a conversation id, that id becomes the active
  conversation and the conversation list is fetched again; when it is rejected, the
  toast "Failed to send message. Please try again." is shown and the id stays. When the
  session data cannot be read (\<open>JSON.parse\<close> of the stored symptoms throws, inside the
  \<open>try\<close> and before the persistence call), the send makes no call at all and appends
  the apology.
\<close>

theorem C5_fullscreen_send_persists:
  assumes "textToSend mt (input c) \<noteq> []" and "\<not> isLoading c"
  shows "(\<forall>ud. read_userData e = Returned ud \<longrightarrow>
           filter is_call (FullscreenChat_handleSend e mt c) =
             Call_sendMessage (messagePayload e (textToSend mt (input c)))
             # (case sendMessage e (messagePayload e (textToSend mt (input c))) of
                  Resolved conversationId \<Rightarrow>
                    if \<not> falsy conversationId then [Call_getHistory] else []
                | Rejected \<Rightarrow> [])
             @ [Call_getAIFeedback ud (textToSend mt (input c))]
         \<and> (\<forall>cid. sendMessage e (messagePayload e (textToSend mt (input c))) = Resolved (Some cid)
                \<and> cid \<noteq> [] \<longrightarrow>
              SetCurrentConversationId (Some cid) \<in> set (FullscreenChat_handleSend e mt c)
            \<and> Call_getHistory \<in> set (FullscreenChat_handleSend e mt c)
            \<and> currentConversationId (run_fullscreen (FullscreenChat_handleSend e mt c) s) = Some cid)
         \<and> (sendMessage e (messagePayload e (textToSend mt (input c))) = Rejected \<longrightarrow>
              Toast_error ''Failed to send message. Please try again.''
                \<in> set (FullscreenChat_handleSend e mt c)
            \<and> currentConversationId (run_fullscreen (FullscreenChat_handleSend e mt c) s) =
                currentConversationId s)
         \<and> Call_getAIFeedback ud (textToSend mt (input c))
              \<in> set (FullscreenChat_handleSend e mt c))
       \<and> api_content (messagePayload e (textToSend mt (input c))) = textToSend mt (input c)
       \<and> api_role (messagePayload e (textToSend mt (input c))) = User
       \<and> AppendMessage (assistant_reply e (textToSend mt (input c)))
            \<in> set (FullscreenChat_handleSend e mt c)
       \<and> (loads_triggered (currentConversationId s) (FullscreenChat_handleSend e mt c) = [] \<longrightarrow>
            messages (run_fullscreen (FullscreenChat_handleSend e mt c) s) =
              messages s @ [user_message (textToSend mt (input c)),
                            assistant_reply e (textToSend mt (input c))])
       \<and> (read_userData e = Thrown \<longrightarrow>
            FullscreenChat_handleSend e mt c =
              [SetInput [], AppendMessage (user_message (textToSend mt (input c))),
               SetIsLoading True, AppendMessage apology, SetIsLoading False]
          \<and> filter is_call (FullscreenChat_handleSend e mt c) = [])
       \<and> (\<forall>p mt' cm. Call_sendMessage p \<notin> set (ChatModal_handleSend e mt' cm))"
proof -
  note tr = FullscreenChat_handleSend_proceeds [OF assms, of e]
  have readable: "filter is_call (FullscreenChat_handleSend e mt c) =
             Call_sendMessage (messagePayload e (textToSend mt (input c)))
             # (case sendMessage e (messagePayload e (textToSend mt (input c))) of
                  Resolved conversationId \<Rightarrow>
                    if \<not> falsy conversationId then [Call_getHistory] else []
                | Rejected \<Rightarrow> [])
             @ [Call_getAIFeedback ud (textToSend mt (input c))]
         \<and> (\<forall>cid. sendMessage e (messagePayload e (textToSend mt (input c))) = Resolved (Some cid)
                \<and> cid \<noteq> [] \<longrightarrow>
              SetCurrentConversationId (Some cid) \<in> set (FullscreenChat_handleSend e mt c)
            \<and> Call_getHistory \<in> set (FullscreenChat_handleSend e mt c)
            \<and> currentConversationId (run_fullscreen (FullscreenChat_handleSend e mt c) s) = Some cid)
         \<and> (sendMessage e (messagePayload e (textToSend mt (input c))) = Rejected \<longrightarrow>
              Toast_error ''Failed to send message. Please try again.''
                \<in> set (FullscreenChat_handleSend e mt c)
            \<and> currentConversationId (run_fullscreen (FullscreenChat_handleSend e mt c) s) =
                currentConversationId s)
         \<and> Call_getAIFeedback ud (textToSend mt (input c))
              \<in> set (FullscreenChat_handleSend e mt c)"
    if r: "read_userData e = Returned ud" for ud
  proof -
    have calls: "filter is_call (FullscreenChat_handleSend e mt c) =
             Call_sendMessage (messagePayload e (textToSend mt (input c)))
             # (case sendMessage e (messagePayload e (textToSend mt (input c))) of
                  Resolved conversationId \<Rightarrow>
                    if \<not> falsy conversationId then [Call_getHistory] else []
                | Rejected \<Rightarrow> [])
             @ [Call_getAIFeedback ud (textToSend mt (input c))]"
      by (simp add: tr r is_call_def filter_calls_fetchConversations split: settled.splits)
    have ok: "SetCurrentConversationId (Some cid) \<in> set (FullscreenChat_handleSend e mt c)
            \<and> Call_getHistory \<in> set (FullscreenChat_handleSend e mt c)
            \<and> currentConversationId (run_fullscreen (FullscreenChat_handleSend e mt c) s) = Some cid"
      if "sendMessage e (messagePayload e (textToSend mt (input c))) = Resolved (Some cid)"
        and "cid \<noteq> []" for cid
      using that
      by (simp add: tr r falsy_def Call_getHistory_in_fetchConversations
            run_fullscreen_Cons run_fullscreen_Nil run_fullscreen_append run_fetchConversations
            apply_fullscreen_def apply_action_def)
    have failed: "Toast_error ''Failed to send message. Please try again.''
                \<in> set (FullscreenChat_handleSend e mt c)
            \<and> currentConversationId (run_fullscreen (FullscreenChat_handleSend e mt c) s) =
                currentConversationId s"
      if "sendMessage e (messagePayload e (textToSend mt (input c))) = Rejected"
      using that
      by (simp add: tr r run_fullscreen_Cons run_fullscreen_Nil
            apply_fullscreen_def apply_action_def)
    have ai: "Call_getAIFeedback ud (textToSend mt (input c))
        \<in> set (FullscreenChat_handleSend e mt c)"
      by (simp add: tr r)
    from calls ok failed ai show ?thesis by blast
  qed
  have payload: "api_content (messagePayload e (textToSend mt (input c))) = textToSend mt (input c)
       \<and> api_role (messagePayload e (textToSend mt (input c))) = User"
    by (simp add: messagePayload_def)
  have reply: "AppendMessage (assistant_reply e (textToSend mt (input c)))
            \<in> set (FullscreenChat_handleSend e mt c)"
    by (simp add: tr)
  have msgs: "messages (run_fullscreen (FullscreenChat_handleSend e mt c) s) =
           messages s @ [user_message (textToSend mt (input c)),
                         assistant_reply e (textToSend mt (input c))]"
    by (rule run_Fullscreen_handleSend(1) [OF assms])
  have unreadable: "FullscreenChat_handleSend e mt c =
              [SetInput [], AppendMessage (user_message (textToSend mt (input c))),
               SetIsLoading True, AppendMessage apology, SetIsLoading False]
          \<and> filter is_call (FullscreenChat_handleSend e mt c) = []"
    if "read_userData e = Thrown"
    by (simp add: FullscreenChat_handleSend_unreadable [OF assms that] is_call_def)
  have modal: "\<forall>p mt' cm. Call_sendMessage p \<notin> set (ChatModal_handleSend e mt' cm)"
    by (simp add: ChatModal_handleSend_never_persists)
  from readable payload reply msgs unreadable modal show ?thesis by blast
qed

theorem C5_fullscreen_send_persists_witness:
  "textToSend (Some ''more'') (input example_fullscreen_state) \<noteq> []
   \<and> \<not> isLoading example_fullscreen_state
   \<and> read_userData failing_ai_env = Returned example_userData
   \<and> sendMessage failing_ai_env (messagePayload failing_ai_env ''more'') = Rejected
   \<and> filter is_call (FullscreenChat_handleSend failing_ai_env (Some ''more'') example_fullscreen_state) =
       [Call_sendMessage \<lparr>api_content = ''more'', api_role = User,
                          api_timestamp = ''2024-03-05T10:00:00.000Z''\<rparr>,
        Call_getAIFeedback example_userData ''more'']
   \<and> Toast_error ''Failed to send message. Please try again.''
        \<in> set (FullscreenChat_handleSend failing_ai_env (Some ''more'') example_fullscreen_state)
   \<and> AppendMessage apology
        \<in> set (FullscreenChat_handleSend failing_ai_env (Some ''more'') example_fullscreen_state)"
proof -
  have t: "textToSend (Some ''more'') (input example_fullscreen_state) = ''more''"
    by (simp add: textToSend_def)
  then have h1: "textToSend (Some ''more'') (input example_fullscreen_state) \<noteq> []" by simp
  have h2: "\<not> isLoading example_fullscreen_state"
    by (simp add: example_fullscreen_state_def)
  have sm: "sendMessage failing_ai_env (messagePayload failing_ai_env ''more'') = Rejected"
    by (simp add: failing_ai_env_def)
  have p: "messagePayload failing_ai_env ''more'' =
      \<lparr>api_content = ''more'', api_role = User, api_timestamp = ''2024-03-05T10:00:00.000Z''\<rparr>"
    by (simp add: messagePayload_def failing_ai_env_def example_env_def)
  note c5 = C5_fullscreen_send_persists [OF h1 h2, of failing_ai_env example_fullscreen_state]
  from c5 read_userData_failing_ai
  have calls: "filter is_call (FullscreenChat_handleSend failing_ai_env (Some ''more'')
        example_fullscreen_state) =
      Call_sendMessage (messagePayload failing_ai_env
          (textToSend (Some ''more'') (input example_fullscreen_state)))
      # (case sendMessage failing_ai_env (messagePayload failing_ai_env
            (textToSend (Some ''more'') (input example_fullscreen_state))) of
           Resolved conversationId \<Rightarrow> if \<not> falsy conversationId then [Call_getHistory] else []
         | Rejected \<Rightarrow> [])
      @ [Call_getAIFeedback example_userData
           (textToSend (Some ''more'') (input example_fullscreen_state))]"
    by blast
  have r1: "filter is_call (FullscreenChat_handleSend failing_ai_env (Some ''more'')
        example_fullscreen_state) =
       [Call_sendMessage \<lparr>api_content = ''more'', api_role = User,
                          api_timestamp = ''2024-03-05T10:00:00.000Z''\<rparr>,
        Call_getAIFeedback example_userData ''more'']"
    using calls unfolding t p by (simp add: failing_ai_env_def)
  from c5 read_userData_failing_ai sm
  have r2: "Toast_error ''Failed to send message. Please try again.''
        \<in> set (FullscreenChat_handleSend failing_ai_env (Some ''more'') example_fullscreen_state)"
    unfolding t by blast
  from c5 have "AppendMessage (assistant_reply failing_ai_env
        (textToSend (Some ''more'') (input example_fullscreen_state)))
      \<in> set (FullscreenChat_handleSend failing_ai_env (Some ''more'') example_fullscreen_state)"
    by blast
  then have r3: "AppendMessage apology
        \<in> set (FullscreenChat_handleSend failing_ai_env (Some ''more'') example_fullscreen_state)"
    unfolding assistant_reply_failing_ai .
  from h1 h2 read_userData_failing_ai sm r1 r2 r3 show ?thesis by blast
qed

lemma read_userData_broken_storage: "read_userData broken_storage_env = Thrown"
  by (simp add: read_userData_def broken_storage_env_def example_env_def getItem_or_def)

text \<open>
  The claim C5 as the specification words it fails twice. On the modal a send asks the
  AI service and never calls the message-send endpoint. On the full-screen surface a
  send that finds session data it cannot parse makes no call at all.
\<close>

theorem C5_counterexample:
  "\<not> isLoading modal_mount_state
   \<and> filter is_call (ChatModal_handleSend example_env (Some ''hello'') modal_mount_state) =
       [Call_getAIFeedback example_userData ''hello'']
   \<and> \<not> isLoading fullscreen_mount_state
   \<and> read_userData broken_storage_env = Thrown
   \<and> filter is_call (FullscreenChat_handleSend broken_storage_env (Some ''hello'')
        fullscreen_mount_state) = []"
proof -
  have t: "textToSend (Some ''hello'') (input modal_mount_state) = ''hello''"
    by (simp add: textToSend_def)
  have l: "\<not> isLoading modal_mount_state"
    by (simp add: modal_mount_state_def)
  have m: "filter is_call (ChatModal_handleSend example_env (Some ''hello'') modal_mount_state) =
       [Call_getAIFeedback example_userData ''hello'']"
    using ChatModal_handleSend_proceeds [of "Some ''hello''" modal_mount_state example_env] l
    by (simp add: t read_userData_example is_call_def)
  have t': "textToSend (Some ''hello'') (input fullscreen_mount_state) \<noteq> []"
    by (simp add: textToSend_def)
  have l': "\<not> isLoading fullscreen_mount_state"
    by (simp add: fullscreen_mount_state_def)
  have f: "filter is_call (FullscreenChat_handleSend broken_storage_env (Some ''hello'')
        fullscreen_mount_state) = []"
    by (simp add: FullscreenChat_handleSend_unreadable [OF t' l' read_userData_broken_storage]
          is_call_def)
  from l m l' read_userData_broken_storage f show ?thesis by blast
qed

subsection \<open>Deleting a conversation\<close>

lemma handleDeleteConversation_split:
  "handleDeleteConversation e im cid c =
     handleDeleteConversation_returned e im cid c
     @ (case deleteConversation e cid of
          Rejected \<Rightarrow> []
        | Resolved _ \<Rightarrow>
            if currentConversationId c = Some cid then handleNewConversation_rest e im c else [])"
  by (simp add: handleDeleteConversation_def handleDeleteConversation_returned_def
        split: settled.splits)

lemma handleDeleteConversation_returned_active:
  assumes "deleteConversation e cid = Resolved ()" and "currentConversationId c = Some cid"
  shows "handleDeleteConversation_returned e im cid c =
     (Call_deleteConversation cid # fetchConversations e)
     @ [SetCurrentConversationId None, SetMessages [], SetInput [], SetHasSentInitialMessage False]
     @ (if \<not> falsy im then FullscreenChat_handleSend_sync e im c else [])
     @ [Toast_success ''Conversation deleted'']"
  using assms
  by (simp add: handleDeleteConversation_returned_def handleNewConversation_sync_def)

lemma FullscreenChat_handleSend_sync_noop:
  "textToSend mt (input c) = [] \<or> isLoading c \<Longrightarrow> FullscreenChat_handleSend_sync e mt c = []"
  by (auto simp: FullscreenChat_handleSend_sync_def Let_def)

lemma FullscreenChat_handleSend_sync_proceeds:
  assumes "textToSend mt (input c) \<noteq> []" "\<not> isLoading c"
  shows "FullscreenChat_handleSend_sync e mt c =
     [SetInput [], AppendMessage (user_message (textToSend mt (input c))), SetIsLoading True]
     @ (case read_userData e of
          Thrown \<Rightarrow> [AppendMessage apology, SetIsLoading False]
        | Returned ud \<Rightarrow> [Call_sendMessage (messagePayload e (textToSend mt (input c)))])"
  using assms by (simp add: FullscreenChat_handleSend_sync_def Let_def)

lemma loads_triggered_handleSend_sync:
  "loads_triggered cur (FullscreenChat_handleSend_sync e mt c @ tr) = loads_triggered cur tr"
  by (simp add: FullscreenChat_handleSend_sync_def Let_def split: attempt.splits)

lemma loads_triggered_returned:
  assumes "deleteConversation e cid = Resolved ()" and "currentConversationId c = Some cid"
  shows "loads_triggered cur (handleDeleteConversation_returned e im cid c) = []"
  by (simp add: handleDeleteConversation_returned_active [OF assms]
        loads_triggered_fetchConversations loads_triggered_handleSend_sync)

text \<open>The state the reset leaves, whatever came before it.\<close>

lemma run_reset:
  fixes s :: fullscreen_state
  defines "r \<equiv> run_fullscreen
     [SetCurrentConversationId None, SetMessages [], SetInput [], SetHasSentInitialMessage False]"
  shows "messages (r s) = []" and "input (r s) = []" and "currentConversationId (r s) = None"
    and "hasSentInitialMessage (r s) = False" and "isLoading (r s) = isLoading s"
  by (simp_all add: r_def run_fullscreen_def apply_fullscreen_def apply_action_def)

lemma run_handleSend_sync:
  assumes "textToSend mt (input c) \<noteq> []" "\<not> isLoading c"
  shows "messages (run_fullscreen (FullscreenChat_handleSend_sync e mt c) s) =
           messages s @ user_message (textToSend mt (input c))
             # (case read_userData e of Thrown \<Rightarrow> [apology] | Returned ud \<Rightarrow> [])"
    and "input (run_fullscreen (FullscreenChat_handleSend_sync e mt c) s) = []"
    and "currentConversationId (run_fullscreen (FullscreenChat_handleSend_sync e mt c) s) =
           currentConversationId s"
    and "isLoading (run_fullscreen (FullscreenChat_handleSend_sync e mt c) s) =
           (case read_userData e of Thrown \<Rightarrow> False | Returned ud \<Rightarrow> True)"
  by (simp_all add: FullscreenChat_handleSend_sync_proceeds [OF assms] run_fullscreen_def
        apply_fullscreen_def apply_action_def split: attempt.splits)

lemma run_Toast_success: "run_fullscreen [Toast_success t] s = s"
  by (simp add: run_fullscreen_def apply_fullscreen_def apply_action_def)

text \<open>The state when the handler returns, in terms of the send it may have started.\<close>

lemma run_returned:
  fixes e :: "'j env"
  assumes "deleteConversation e cid = Resolved ()" and "currentConversationId c = Some cid"
  shows "run_fullscreen (handleDeleteConversation_returned e im cid c) s =
     run_fullscreen (if \<not> falsy im then FullscreenChat_handleSend_sync e im c else [])
       (run_fullscreen
          ([SetCurrentConversationId None, SetMessages [], SetInput [],
            SetHasSentInitialMessage False] :: 'j action list)
          (run_fullscreen (Call_deleteConversation cid # fetchConversations e) s))"
proof -
  have "handleDeleteConversation_returned e im cid c =
     (Call_deleteConversation cid # fetchConversations e)
     @ ([SetCurrentConversationId None, SetMessages [], SetInput [], SetHasSentInitialMessage False]
     @ ((if \<not> falsy im then FullscreenChat_handleSend_sync e im c else [])
     @ [Toast_success ''Conversation deleted'']))"
    by (simp add: handleDeleteConversation_returned_active [OF assms])
  then show ?thesis
    by (simp only: run_fullscreen_append run_Toast_success)
qed

text \<open>
  C7, as the code has it. When the active conversation is deleted and the backend call
  succeeds, the handler fetches the conversation list again, sets the active
  conversation id to null, empties the message list and the input field and, before it
  returns, shows the toast "Conversation deleted"; none of this starts a load. When the
  component was given no initial prompt, the handler does nothing more, and the view is
  left fresh and empty: no active conversation, no messages, empty input. When it was
  given one and saw no send in progress, it sends the prompt again at once: as it
  returns, the id is null and the input empty, but the message list holds the user
  message of the prompt (and the apology, if the session data could not be read), and
  the rest of that send follows.
\<close>

theorem C7_delete_active_conversation:
  assumes "deleteConversation e cid = Resolved ()" and "currentConversationId c = Some cid"
  shows "handleDeleteConversation e im cid c =
           handleDeleteConversation_returned e im cid c @ handleNewConversation_rest e im c
       \<and> Call_getHistory \<in> set (handleDeleteConversation_returned e im cid c)
       \<and> last (handleDeleteConversation_returned e im cid c) =
           Toast_success ''Conversation deleted''
       \<and> loads_triggered (currentConversationId s) (handleDeleteConversation_returned e im cid c) = []
       \<and> currentConversationId (run_fullscreen (handleDeleteConversation_returned e im cid c) s)
           = None
       \<and> input (run_fullscreen (handleDeleteConversation_returned e im cid c) s) = []
       \<and> (falsy im \<or> isLoading c \<longrightarrow>
            messages (run_fullscreen (handleDeleteConversation_returned e im cid c) s) = [])
       \<and> (falsy im \<longrightarrow>
            handleDeleteConversation e im cid c = handleDeleteConversation_returned e im cid c)
       \<and> (\<forall>m ud. im = Some m \<and> m \<noteq> [] \<and> \<not> isLoading c \<and> read_userData e = Returned ud \<longrightarrow>
            messages (run_fullscreen (handleDeleteConversation_returned e im cid c) s) =
              [user_message m]
          \<and> isLoading (run_fullscreen (handleDeleteConversation_returned e im cid c) s))
       \<and> (\<forall>m. im = Some m \<and> m \<noteq> [] \<and> \<not> isLoading c \<and> read_userData e = Thrown \<longrightarrow>
            messages (run_fullscreen (handleDeleteConversation_returned e im cid c) s) =
              [user_message m, apology])"
proof -
  note ret = handleDeleteConversation_returned_active [OF assms, of im]
  note run = run_returned [OF assms, of im s]
  have whole: "handleDeleteConversation e im cid c =
      handleDeleteConversation_returned e im cid c @ handleNewConversation_rest e im c"
    using assms by (simp add: handleDeleteConversation_split)
  have hist: "Call_getHistory \<in> set (handleDeleteConversation_returned e im cid c)"
    by (simp add: ret Call_getHistory_in_fetchConversations)
  have toast: "last (handleDeleteConversation_returned e im cid c) =
      Toast_success ''Conversation deleted''"
    by (simp add: ret)
  have noload: "loads_triggered (currentConversationId s)
      (handleDeleteConversation_returned e im cid c) = []"
    by (rule loads_triggered_returned [OF assms])
  have idle: "run_fullscreen (handleDeleteConversation_returned e im cid c) s =
      run_fullscreen
          ([SetCurrentConversationId None, SetMessages [], SetInput [],
            SetHasSentInitialMessage False] :: 'a action list)
          (run_fullscreen (Call_deleteConversation cid # fetchConversations e) s)"
    if "falsy im \<or> isLoading c"
  proof (cases "falsy im")
    case True
    then show ?thesis by (simp add: run run_fullscreen_Nil)
  next
    case False
    with that have "isLoading c" by simp
    then show ?thesis
      by (simp add: run FullscreenChat_handleSend_sync_noop run_fullscreen_Nil)
  qed
  have fields: "currentConversationId (run_fullscreen (handleDeleteConversation_returned e im cid c) s)
           = None
       \<and> input (run_fullscreen (handleDeleteConversation_returned e im cid c) s) = []"
  proof (cases "falsy im \<or> isLoading c")
    case True
    then show ?thesis by (simp add: idle run_reset)
  next
    case False
    then obtain m where m: "im = Some m" "m \<noteq> []" and l: "\<not> isLoading c"
      by (cases im) (auto simp: falsy_def)
    have ne: "textToSend im (input c) \<noteq> []" using m by (simp add: textToSend_def)
    show ?thesis
      using False by (simp add: run run_handleSend_sync [OF ne l] run_reset)
  qed
  have empty: "messages (run_fullscreen (handleDeleteConversation_returned e im cid c) s) = []"
    if "falsy im \<or> isLoading c"
    by (simp add: idle [OF that] run_reset)
  have only: "handleDeleteConversation e im cid c = handleDeleteConversation_returned e im cid c"
    if "falsy im"
    using that by (simp add: whole handleNewConversation_rest_def)
  have resent: "messages (run_fullscreen (handleDeleteConversation_returned e im cid c) s) =
        user_message m # (case read_userData e of Thrown \<Rightarrow> [apology] | Returned ud \<Rightarrow> [])
      \<and> isLoading (run_fullscreen (handleDeleteConversation_returned e im cid c) s) =
        (case read_userData e of Thrown \<Rightarrow> False | Returned ud \<Rightarrow> True)"
    if "im = Some m" "m \<noteq> []" "\<not> isLoading c" for m
  proof -
    have nf: "\<not> falsy im" using that by (simp add: falsy_def)
    have t: "textToSend im (input c) = m" using that by (simp add: textToSend_def)
    then have ne: "textToSend im (input c) \<noteq> []" using that by simp
    show ?thesis
      using nf by (simp add: run run_handleSend_sync [OF ne that(3)] run_reset t)
  qed
  have readable: "messages (run_fullscreen (handleDeleteConversation_returned e im cid c) s) =
              [user_message m]
          \<and> isLoading (run_fullscreen (handleDeleteConversation_returned e im cid c) s)"
    if "im = Some m" "m \<noteq> []" "\<not> isLoading c" "read_userData e = Returned ud" for m ud
    using resent [OF that(1-3)] that(4) by simp
  have unreadable: "messages (run_fullscreen (handleDeleteConversation_returned e im cid c) s) =
              [user_message m, apology]"
    if "im = Some m" "m \<noteq> []" "\<not> isLoading c" "read_userData e = Thrown" for m
    using resent [OF that(1-3)] that(4) by simp
  from whole hist toast noload fields empty only readable unreadable show ?thesis by blast
qed

lemma example_delete_facts:
  "deleteConversation example_env ''c1'' = Resolved ()"
  "currentConversationId example_fullscreen_state = Some ''c1''"
  "\<not> isLoading example_fullscreen_state"
  by (simp_all add: example_env_def example_fullscreen_state_def)

theorem C7_delete_active_conversation_witness:
  "deleteConversation example_env ''c1'' = Resolved ()
   \<and> currentConversationId example_fullscreen_state = Some ''c1''
   \<and> falsy None
   \<and> messages example_fullscreen_state \<noteq> []
   \<and> handleDeleteConversation example_env None ''c1'' example_fullscreen_state =
       handleDeleteConversation_returned example_env None ''c1'' example_fullscreen_state
   \<and> currentConversationId (run_fullscreen
        (handleDeleteConversation_returned example_env None ''c1'' example_fullscreen_state)
        example_fullscreen_state) = None
   \<and> messages (run_fullscreen
        (handleDeleteConversation_returned example_env None ''c1'' example_fullscreen_state)
        example_fullscreen_state) = []
   \<and> input (run_fullscreen
        (handleDeleteConversation_returned example_env None ''c1'' example_fullscreen_state)
        example_fullscreen_state) = []"
proof -
  have f: "falsy None" by (simp add: falsy_def)
  have m: "messages example_fullscreen_state \<noteq> []"
    by (simp add: example_fullscreen_state_def)
  show ?thesis
    using C7_delete_active_conversation [OF example_delete_facts(1,2), of None example_fullscreen_state]
      f m example_delete_facts(1,2)
    by blast
qed

text \<open>
  The claim C7 as the specification words it fails when the component was given an
  initial prompt: as the handler returns after the deletion, the message list is not
  empty but holds the prompt, sent again, and the view is loading.
\<close>

theorem C7_counterexample:
  "deleteConversation example_env ''c1'' = Resolved ()
   \<and> currentConversationId example_fullscreen_state = Some ''c1''
   \<and> \<not> isLoading example_fullscreen_state
   \<and> messages (run_fullscreen
        (handleDeleteConversation_returned example_env (Some ''hello'') ''c1''
           example_fullscreen_state)
        example_fullscreen_state) = [user_message ''hello'']
   \<and> isLoading (run_fullscreen
        (handleDeleteConversation_returned example_env (Some ''hello'') ''c1''
           example_fullscreen_state)
        example_fullscreen_state)"
proof -
  have t: "textToSend (Some ''hello'') (input example_fullscreen_state) = ''hello''"
    by (simp add: textToSend_def)
  then have ne: "textToSend (Some ''hello'') (input example_fullscreen_state) \<noteq> []" by simp
  have nf: "\<not> falsy (Some ''hello'')" by (simp add: falsy_def)
  note l = example_delete_facts(3)
  have "messages (run_fullscreen
        (handleDeleteConversation_returned example_env (Some ''hello'') ''c1''
           example_fullscreen_state)
        example_fullscreen_state) = [user_message ''hello'']
   \<and> isLoading (run_fullscreen
        (handleDeleteConversation_returned example_env (Some ''hello'') ''c1''
           example_fullscreen_state)
        example_fullscreen_state)"
    using nf
    by (simp add: run_returned [OF example_delete_facts(1,2)] run_handleSend_sync [OF ne l]
          run_reset t read_userData_example)
  with example_delete_facts show ?thesis by blast
qed

subsection \<open>The initial prompt\<close>

text \<open>No handler but \<open>handleNewConversation\<close> writes \<open>false\<close> to the guard.\<close>

lemma no_reset_fetchConversations: "\<not> resets_guard (fetchConversations e)"
  by (simp add: resets_guard_def fetchConversations_def split: settled.splits)

lemma no_reset_loadConversation: "\<not> resets_guard (loadConversation e cid)"
  by (simp add: resets_guard_def loadConversation_def split: settled.splits)

lemma no_reset_ChatModal_handleSend: "\<not> resets_guard (ChatModal_handleSend e mt c)"
  by (simp add: resets_guard_def ChatModal_handleSend_def Let_def split: attempt.splits)

lemma no_reset_Fullscreen_handleSend: "\<not> resets_guard (FullscreenChat_handleSend e mt c)"
  using no_reset_fetchConversations [of e]
  by (simp add: resets_guard_def FullscreenChat_handleSend_def FullscreenChat_handleSend_sync_def
        FullscreenChat_handleSend_rest_def Let_def split: attempt.splits settled.splits)

lemma no_reset_ChatModal_sendInitialMessage:
  "\<not> resets_guard (ChatModal_sendInitialMessage e isOpen im c)"
  using no_reset_ChatModal_handleSend [of e im c]
  by (simp add: resets_guard_def ChatModal_sendInitialMessage_def)

lemma no_reset_Fullscreen_sendInitialMessage:
  "\<not> resets_guard (FullscreenChat_sendInitialMessage e im c)"
  using no_reset_Fullscreen_handleSend [of e im c]
  by (simp add: resets_guard_def FullscreenChat_sendInitialMessage_def)

lemma no_reset_delete_other:
  "currentConversationId c \<noteq> Some cid \<Longrightarrow> \<not> resets_guard (handleDeleteConversation e im cid c)"
  using no_reset_fetchConversations [of e]
  by (simp add: resets_guard_def handleDeleteConversation_def split: settled.splits)

lemma resets_handleNewConversation: "resets_guard (handleNewConversation e im c)"
  by (simp add: resets_guard_def handleNewConversation_def handleNewConversation_sync_def)

text \<open>A trace that does not reset the guard leaves a set guard set.\<close>

lemma guard_kept_modal:
  "\<not> resets_guard tr \<Longrightarrow> hasSentInitialMessage s \<Longrightarrow> hasSentInitialMessage (run_modal tr s)"
proof (induction tr arbitrary: s)
  case Nil
  then show ?case by (simp add: run_modal_Nil)
next
  case (Cons a tr)
  have "hasSentInitialMessage (apply_action a s)"
    using Cons.prems by (cases a) (auto simp: apply_action_def resets_guard_def)
  moreover have "\<not> resets_guard tr"
    using Cons.prems(1) by (simp add: resets_guard_def)
  ultimately show ?case
    using Cons.IH by (simp add: run_modal_Cons)
qed

lemma guard_kept_fullscreen:
  "\<not> resets_guard tr \<Longrightarrow> hasSentInitialMessage s \<Longrightarrow>
   hasSentInitialMessage (run_fullscreen tr s)"
proof (induction tr arbitrary: s)
  case Nil
  then show ?case by (simp add: run_fullscreen_Nil)
next
  case (Cons a tr)
  have "hasSentInitialMessage (apply_fullscreen a s)"
    using Cons.prems by (cases a) (auto simp: apply_fullscreen_def apply_action_def resets_guard_def)
  moreover have "\<not> resets_guard tr"
    using Cons.prems(1) by (simp add: resets_guard_def)
  ultimately show ?case
    using Cons.IH by (simp add: run_fullscreen_Cons)
qed

text \<open>Once the guard is set, re-rendering does nothing more.\<close>

lemma fullscreen_rerenders_idle:
  "hasSentInitialMessage s \<Longrightarrow>
   fullscreen_rerenders e im us s = replicate (length us) []"
proof (induction us arbitrary: s)
  case Nil
  show ?case by simp
next
  case (Cons u us)
  let ?c = "(u s)\<lparr>hasSentInitialMessage := hasSentInitialMessage s\<rparr>"
  have idle: "FullscreenChat_sendInitialMessage e im ?c = []"
    using Cons.prems by (simp add: FullscreenChat_sendInitialMessage_def)
  have "hasSentInitialMessage ?c" using Cons.prems by simp
  then have "fullscreen_rerenders e im us ?c = replicate (length us) []"
    by (rule Cons.IH)
  then show ?case
    by (simp add: Let_def idle run_fullscreen_Nil)
qed

lemma modal_rerenders_idle:
  "hasSentInitialMessage s \<Longrightarrow>
   modal_rerenders e im us s = replicate (length us) []"
proof (induction us arbitrary: s)
  case Nil
  show ?case by simp
next
  case (Cons ou us)
  obtain isOpen u where ou: "ou = (isOpen, u)" by (cases ou)
  let ?c = "(u s)\<lparr>hasSentInitialMessage := hasSentInitialMessage s\<rparr>"
  have idle: "ChatModal_sendInitialMessage e isOpen im ?c = []"
    using Cons.prems by (simp add: ChatModal_sendInitialMessage_def)
  have "hasSentInitialMessage ?c" using Cons.prems by simp
  then have "modal_rerenders e im us ?c = replicate (length us) []"
    by (rule Cons.IH)
  then show ?case
    by (simp add: ou Let_def idle run_modal_Nil)
qed

lemma sends_of_replicate_Nil: "sends_of m (concat (tr # replicate n [])) = sends_of m tr"
  by (simp add: sends_of_def)

text \<open>The send of the prompt appends the prompt once.\<close>

lemma sends_of_ChatModal_handleSend:
  assumes "m \<noteq> []" "\<not> isLoading c"
  shows "sends_of m (ChatModal_handleSend e (Some m) c) = 1"
proof -
  have t: "textToSend (Some m) (input c) = m" using assms by (simp add: textToSend_def)
  then have ne: "textToSend (Some m) (input c) \<noteq> []" using assms by simp
  show ?thesis
    using assistant_reply_neq_user [of e m m]
    by (simp add: ChatModal_handleSend_proceeds [OF ne assms(2)] t sends_of_def
          split: attempt.splits)
qed

lemma sends_of_fetchConversations: "sends_of m (fetchConversations e) = 0"
  by (simp add: sends_of_def fetchConversations_def split: settled.splits)

lemma sends_of_append: "sends_of m (tr @ tr') = sends_of m tr + sends_of m tr'"
  by (simp add: sends_of_def)

lemma sends_of_empty: "sends_of m [] = 0"
  by (simp add: sends_of_def)

lemma sends_of_Cons:
  "sends_of m (a # tr) = (if a = AppendMessage (user_message m) then 1 else 0) + sends_of m tr"
  by (simp add: sends_of_def)

lemma sends_of_Fullscreen_handleSend:
  assumes "m \<noteq> []" "\<not> isLoading c"
  shows "sends_of m (FullscreenChat_handleSend e (Some m) c) = 1"
proof -
  have t: "textToSend (Some m) (input c) = m" using assms by (simp add: textToSend_def)
  then have ne: "textToSend (Some m) (input c) \<noteq> []" using assms by simp
  show ?thesis
    using assistant_reply_neq_user [of e m m]
    by (simp add: FullscreenChat_handleSend_proceeds [OF ne assms(2)] t sends_of_append
          sends_of_Cons sends_of_empty sends_of_fetchConversations
          split: attempt.splits settled.splits)
qed

lemma fullscreen_lifetime_once:
  assumes "m \<noteq> []"
  shows "fullscreen_lifetime e (Some m) us =
     (SetHasSentInitialMessage True
        # FullscreenChat_handleSend e (Some m) fullscreen_mount_state)
     # replicate (length us) []"
proof -
  let ?tr = "SetHasSentInitialMessage True
        # FullscreenChat_handleSend e (Some m) fullscreen_mount_state"
  have eff: "FullscreenChat_sendInitialMessage e (Some m) fullscreen_mount_state = ?tr"
    using assms by (simp add: FullscreenChat_sendInitialMessage_def falsy_def
        fullscreen_mount_state_def)
  have "hasSentInitialMessage (apply_fullscreen (SetHasSentInitialMessage True :: 'a action)
      fullscreen_mount_state)"
    by (simp add: apply_fullscreen_def apply_action_def)
  then have "hasSentInitialMessage (run_fullscreen ?tr fullscreen_mount_state)"
    using guard_kept_fullscreen [OF no_reset_Fullscreen_handleSend]
    by (simp add: run_fullscreen_Cons)
  then have "fullscreen_rerenders e (Some m) us (run_fullscreen ?tr fullscreen_mount_state)
      = replicate (length us) []"
    by (rule fullscreen_rerenders_idle)
  moreover have "(id fullscreen_mount_state)
      \<lparr>hasSentInitialMessage := hasSentInitialMessage fullscreen_mount_state\<rparr>
      = fullscreen_mount_state"
    by simp
  ultimately show ?thesis
    by (simp add: fullscreen_lifetime_def Let_def eff)
qed

lemma modal_lifetime_open:
  assumes "m \<noteq> []"
  shows "modal_lifetime e (Some m) True us =
     (SetHasSentInitialMessage True # ChatModal_handleSend e (Some m) modal_mount_state)
     # replicate (length us) []"
proof -
  let ?tr = "SetHasSentInitialMessage True # ChatModal_handleSend e (Some m) modal_mount_state"
  have eff: "ChatModal_sendInitialMessage e True (Some m) modal_mount_state = ?tr"
    using assms by (simp add: ChatModal_sendInitialMessage_def falsy_def modal_mount_state_def)
  have "hasSentInitialMessage (apply_action (SetHasSentInitialMessage True :: 'a action)
      modal_mount_state)"
    by (simp add: apply_action_def)
  then have "hasSentInitialMessage (run_modal ?tr modal_mount_state)"
    using guard_kept_modal [OF no_reset_ChatModal_handleSend]
    by (simp add: run_modal_Cons)
  then have "modal_rerenders e (Some m) us (run_modal ?tr modal_mount_state)
      = replicate (length us) []"
    by (rule modal_rerenders_idle)
  moreover have "(id modal_mount_state)
      \<lparr>hasSentInitialMessage := hasSentInitialMessage modal_mount_state\<rparr> = modal_mount_state"
    by simp
  ultimately show ?thesis
    by (simp add: modal_lifetime_def Let_def eff)
qed

lemma sends_of_ChatModal_handleSend_le:
  assumes "m \<noteq> []"
  shows "sends_of m (ChatModal_handleSend e (Some m) c) \<le> 1"
proof (cases "isLoading c")
  case True
  then show ?thesis
    by (simp add: ChatModal_handleSend_noop sends_of_empty)
next
  case False
  then show ?thesis
    using sends_of_ChatModal_handleSend [OF assms, of c e] by simp
qed

lemma sends_of_Fullscreen_handleSend_le:
  assumes "m \<noteq> []"
  shows "sends_of m (FullscreenChat_handleSend e (Some m) c) \<le> 1"
proof (cases "isLoading c")
  case True
  then show ?thesis
    by (simp add: FullscreenChat_handleSend_noop sends_of_empty)
next
  case False
  then show ?thesis
    using sends_of_Fullscreen_handleSend [OF assms, of c e] by simp
qed

lemma sends_of_guard_write: "sends_of m (SetHasSentInitialMessage b # tr) = sends_of m tr"
  by (simp add: sends_of_Cons)

text \<open>From any state, any number of re-renders sends the prompt at most once.\<close>

lemma fullscreen_rerenders_at_most_once:
  assumes "m \<noteq> []"
  shows "sends_of m (concat (fullscreen_rerenders e (Some m) us s)) \<le> 1"
proof (induction us arbitrary: s)
  case Nil
  show ?case by (simp add: sends_of_empty)
next
  case (Cons u us)
  let ?c = "(u s)\<lparr>hasSentInitialMessage := hasSentInitialMessage s\<rparr>"
  let ?tr = "FullscreenChat_sendInitialMessage e (Some m) ?c"
  show ?case
  proof (cases "?tr = []")
    case True
    then show ?thesis
      using Cons.IH [of ?c] by (simp add: Let_def run_fullscreen_Nil)
  next
    case False
    then have tr: "?tr = SetHasSentInitialMessage True # FullscreenChat_handleSend e (Some m) ?c"
      by (simp add: FullscreenChat_sendInitialMessage_def split: if_splits)
    have "hasSentInitialMessage (apply_fullscreen (SetHasSentInitialMessage True :: 'a action) ?c)"
      by (simp add: apply_fullscreen_def apply_action_def)
    then have "hasSentInitialMessage (run_fullscreen ?tr ?c)"
      using guard_kept_fullscreen [OF no_reset_Fullscreen_handleSend]
      by (simp add: tr run_fullscreen_Cons)
    then have "fullscreen_rerenders e (Some m) us (run_fullscreen ?tr ?c) = replicate (length us) []"
      by (rule fullscreen_rerenders_idle)
    then have "sends_of m (concat (fullscreen_rerenders e (Some m) (u # us) s)) = sends_of m ?tr"
      by (simp add: Let_def sends_of_def)
    also have "\<dots> \<le> 1"
      unfolding tr sends_of_guard_write
      by (rule sends_of_Fullscreen_handleSend_le [OF assms])
    finally show ?thesis .
  qed
qed

lemma modal_rerenders_at_most_once:
  assumes "m \<noteq> []"
  shows "sends_of m (concat (modal_rerenders e (Some m) ous s)) \<le> 1"
proof (induction ous arbitrary: s)
  case Nil
  show ?case by (simp add: sends_of_empty)
next
  case (Cons ou ous)
  obtain isOpen u where ou: "ou = (isOpen, u)" by (cases ou)
  let ?c = "(u s)\<lparr>hasSentInitialMessage := hasSentInitialMessage s\<rparr>"
  let ?tr = "ChatModal_sendInitialMessage e isOpen (Some m) ?c"
  show ?case
  proof (cases "?tr = []")
    case True
    then show ?thesis
      using Cons.IH [of ?c] by (simp add: ou Let_def run_modal_Nil)
  next
    case False
    then have tr: "?tr = SetHasSentInitialMessage True # ChatModal_handleSend e (Some m) ?c"
      by (simp add: ChatModal_sendInitialMessage_def split: if_splits)
    have "hasSentInitialMessage (apply_action (SetHasSentInitialMessage True :: 'a action) ?c)"
      by (simp add: apply_action_def)
    then have "hasSentInitialMessage (run_modal ?tr ?c)"
      using guard_kept_modal [OF no_reset_ChatModal_handleSend]
      by (simp add: tr run_modal_Cons)
    then have "modal_rerenders e (Some m) ous (run_modal ?tr ?c) = replicate (length ous) []"
      by (rule modal_rerenders_idle)
    then have "sends_of m (concat (modal_rerenders e (Some m) (ou # ous) s)) = sends_of m ?tr"
      by (simp add: ou Let_def sends_of_def)
    also have "\<dots> \<le> 1"
      unfolding tr sends_of_guard_write
      by (rule sends_of_ChatModal_handleSend_le [OF assms])
    finally show ?thesis .
  qed
qed

text \<open>While the modal stays closed and its state does not change, the effect does nothing.\<close>

lemma modal_rerenders_closed:
  "modal_rerenders e im (replicate n (False, id) @ ous) s =
   replicate n [] @ modal_rerenders e im ous s"
proof (induction n)
  case 0
  show ?case by simp
next
  case (Suc n)
  have "ChatModal_sendInitialMessage e False im s = []"
    by (simp add: ChatModal_sendInitialMessage_def)
  then show ?case
    using Suc by (simp add: Let_def run_modal_Nil)
qed

lemma modal_lifetime_opened_later:
  assumes "m \<noteq> []"
  shows "modal_lifetime e (Some m) False (replicate n (False, id) @ (True, id) # ous) =
     replicate (Suc n) []
     @ (SetHasSentInitialMessage True # ChatModal_handleSend e (Some m) modal_mount_state)
       # replicate (length ous) []"
proof -
  have "modal_lifetime e (Some m) False (replicate n (False, id) @ (True, id) # ous) =
      modal_rerenders e (Some m) (replicate (Suc n) (False, id) @ (True, id) # ous)
        modal_mount_state"
    by (simp add: modal_lifetime_def)
  also have "\<dots> = replicate (Suc n) []
      @ modal_rerenders e (Some m) ((True, id) # ous) modal_mount_state"
    by (rule modal_rerenders_closed)
  also have "modal_rerenders e (Some m) ((True, id) # ous) modal_mount_state =
      modal_lifetime e (Some m) True ous"
    by (simp add: modal_lifetime_def)
  finally show ?thesis
    by (simp only: modal_lifetime_open [OF assms])
qed

lemma sends_of_idle_prefix: "sends_of m (concat (replicate k [] @ trs)) = sends_of m (concat trs)"
  by (simp add: sends_of_def)

text \<open>A modal that is closed at every render never runs the send.\<close>

lemma modal_rerenders_never_opened:
  "modal_rerenders e im (map (Pair False) cs) s = replicate (length cs) []"
proof (induction cs arbitrary: s)
  case Nil
  show ?case by simp
next
  case (Cons u cs)
  have "ChatModal_sendInitialMessage e False im
      ((u s)\<lparr>hasSentInitialMessage := hasSentInitialMessage s\<rparr>) = []"
    by (simp add: ChatModal_sendInitialMessage_def)
  then show ?case
    using Cons by (simp add: Let_def run_modal_Nil)
qed

lemma modal_lifetime_never_opened:
  "modal_lifetime e im False (map (Pair False) cs) = replicate (Suc (length cs)) []"
proof -
  have "modal_lifetime e im False (map (Pair False) cs) =
      modal_rerenders e im (map (Pair False) (id # cs)) modal_mount_state"
    by (simp add: modal_lifetime_def)
  then show ?thesis
    by (simp only: modal_rerenders_never_opened length_Cons)
qed

text \<open>The new-conversation action sends the prompt itself, unless a send is in progress.\<close>

lemma handleNewConversation_resend:
  "\<not> falsy im \<Longrightarrow>
   handleNewConversation e im c =
     [SetCurrentConversationId None, SetMessages [], SetInput [], SetHasSentInitialMessage False]
     @ FullscreenChat_handleSend e im c"
  by (simp add: handleNewConversation_def handleNewConversation_sync_def
        handleNewConversation_rest_def FullscreenChat_handleSend_def)

lemma sends_of_handleNewConversation:
  assumes "m \<noteq> []" "\<not> isLoading c"
  shows "sends_of m (handleNewConversation e (Some m) c) = 1"
proof -
  have "\<not> falsy (Some m)" using assms by (simp add: falsy_def)
  then show ?thesis
    using sends_of_Fullscreen_handleSend [OF assms, of e]
    by (simp add: handleNewConversation_resend sends_of_Cons)
qed

text \<open>
  C4, as the code has it. A chat surface is mounted with a non-empty initial prompt and
  then re-renders any number of times, the React state changing in any way between
  renders, while no new-conversation action takes place. On the full-screen surface,
  and on the modal when it is open at the mount, the effect sends the prompt at the
  mount and does nothing at any later render: the prompt is sent exactly once. A modal
  that is mounted closed, stays closed and unchanged for some renders and is then
  opened sends the prompt at the render that opens it, and exactly once over its life.
  A modal that is closed at every render sends nothing. In any such stretch of renders,
  from any state, the effect sends the prompt at most once, and from a state whose
  guard is set it sends nothing. No handler of either component writes \<open>false\<close> to the
  guard, except \<open>handleNewConversation\<close> (also when it is reached by deleting the active
  conversation), which sends the prompt again itself when no send is in progress.
\<close>

theorem C4_initial_prompt_sent_once:
  assumes "m \<noteq> []"
  shows "fullscreen_lifetime e (Some m) us =
           (SetHasSentInitialMessage True
              # FullscreenChat_handleSend e (Some m) fullscreen_mount_state)
           # replicate (length us) []
       \<and> sends_of m (concat (fullscreen_lifetime e (Some m) us)) = 1
       \<and> modal_lifetime e (Some m) True ous =
           (SetHasSentInitialMessage True # ChatModal_handleSend e (Some m) modal_mount_state)
           # replicate (length ous) []
       \<and> sends_of m (concat (modal_lifetime e (Some m) True ous)) = 1
       \<and> sends_of m (concat (modal_lifetime e (Some m) False
              (replicate n (False, id) @ (True, id) # ous))) = 1
       \<and> modal_lifetime e (Some m) False (map (Pair False) cs) = replicate (Suc (length cs)) []
       \<and> sends_of m (concat (modal_lifetime e (Some m) False (map (Pair False) cs))) = 0
       \<and> sends_of m (concat (modal_lifetime e (Some m) isOpen ous)) \<le> 1
       \<and> sends_of m (concat (fullscreen_rerenders e (Some m) us s)) \<le> 1
       \<and> (hasSentInitialMessage s \<longrightarrow>
            fullscreen_rerenders e (Some m) us s = replicate (length us) [])
       \<and> (hasSentInitialMessage s' \<longrightarrow>
            modal_rerenders e (Some m) ous s' = replicate (length ous) [])
       \<and> \<not> resets_guard (FullscreenChat_sendInitialMessage e (Some m) c)
       \<and> \<not> resets_guard (FullscreenChat_handleSend e mt c)
       \<and> \<not> resets_guard (fetchConversations e)
       \<and> \<not> resets_guard (loadConversation e cid)
       \<and> (currentConversationId c \<noteq> Some cid \<longrightarrow>
            \<not> resets_guard (handleDeleteConversation e (Some m) cid c))
       \<and> \<not> resets_guard (ChatModal_sendInitialMessage e isOpen (Some m) c')
       \<and> \<not> resets_guard (ChatModal_handleSend e mt c')
       \<and> resets_guard (handleNewConversation e (Some m) c)
       \<and> (\<not> isLoading c \<longrightarrow> sends_of m (handleNewConversation e (Some m) c) = 1)"
proof -
  have l: "\<not> isLoading fullscreen_mount_state" "\<not> isLoading modal_mount_state"
    by (simp_all add: fullscreen_mount_state_def modal_mount_state_def)
  have f1: "sends_of m (concat (fullscreen_lifetime e (Some m) us)) = 1"
    unfolding fullscreen_lifetime_once [OF assms] sends_of_replicate_Nil sends_of_guard_write
    using assms l by (simp add: sends_of_Fullscreen_handleSend)
  have m1: "sends_of m (concat (modal_lifetime e (Some m) True ous)) = 1"
    unfolding modal_lifetime_open [OF assms] sends_of_replicate_Nil sends_of_guard_write
    using assms l by (simp add: sends_of_ChatModal_handleSend)
  have m3: "sends_of m (concat (modal_lifetime e (Some m) False
              (replicate n (False, id) @ (True, id) # ous))) = 1"
    unfolding modal_lifetime_opened_later [OF assms] sends_of_idle_prefix
      sends_of_replicate_Nil sends_of_guard_write
    using assms l by (simp add: sends_of_ChatModal_handleSend)
  have m2: "sends_of m (concat (modal_lifetime e (Some m) isOpen ous)) \<le> 1"
    unfolding modal_lifetime_def by (rule modal_rerenders_at_most_once [OF assms])
  have m0: "sends_of m (concat (modal_lifetime e (Some m) False (map (Pair False) cs))) = 0"
    unfolding modal_lifetime_never_opened by (simp add: sends_of_def)
  have nc: "sends_of m (handleNewConversation e (Some m) c) = 1" if "\<not> isLoading c"
    by (rule sends_of_handleNewConversation [OF assms that])
  show ?thesis
    using fullscreen_lifetime_once [OF assms, of e us] f1
      modal_lifetime_open [OF assms, of e ous] m1 m2 m3 m0 nc
      modal_lifetime_never_opened [of e "Some m" cs]
      fullscreen_rerenders_at_most_once [OF assms, of e us s]
      fullscreen_rerenders_idle [of s e "Some m" us]
      modal_rerenders_idle [of s' e "Some m" ous]
      no_reset_Fullscreen_sendInitialMessage [of e "Some m" c]
      no_reset_Fullscreen_handleSend [of e mt c]
      no_reset_fetchConversations [of e]
      no_reset_loadConversation [of e cid]
      no_reset_delete_other [of c cid e "Some m"]
      no_reset_ChatModal_sendInitialMessage [of e isOpen "Some m" c']
      no_reset_ChatModal_handleSend [of e mt c']
      resets_handleNewConversation [of e "Some m" c]
    by blast
qed

theorem C4_initial_prompt_sent_once_witness:
  "''hello'' \<noteq> []
   \<and> hasSentInitialMessage example_fullscreen_state
   \<and> sends_of ''hello'' (concat (fullscreen_lifetime example_env (Some ''hello'') [id, id])) = 1
   \<and> sends_of ''hello'' (concat (modal_lifetime example_env (Some ''hello'') True
        [(False, id), (True, id)])) = 1
   \<and> fullscreen_rerenders example_env (Some ''hello'') [id, id] example_fullscreen_state = [[], []]
   \<and> resets_guard (handleNewConversation example_env (Some ''hello'') example_fullscreen_state)"
proof -
  have h: "''hello'' \<noteq> []" by simp
  have g: "hasSentInitialMessage example_fullscreen_state"
    by (simp add: example_fullscreen_state_def)
  have r: "replicate (length [id, id :: fullscreen_state \<Rightarrow> fullscreen_state])
             ([] :: unit action list) = [[], []]"
    by (simp add: numeral_2_eq_2)
  note t = C4_initial_prompt_sent_once [OF h, where e = example_env and us = "[id, id]"
        and ous = "[(False, id), (True, id)]" and n = 2 and isOpen = True and cs = "[id]"
        and s = example_fullscreen_state and s' = modal_mount_state
        and c = example_fullscreen_state and mt = None and cid = "''c1''"
        and c' = modal_mount_state]
  from t have a: "sends_of ''hello''
      (concat (fullscreen_lifetime example_env (Some ''hello'') [id, id])) = 1"
    by blast
  from t have b: "sends_of ''hello'' (concat (modal_lifetime example_env (Some ''hello'') True
        [(False, id), (True, id)])) = 1"
    by blast
  from t g have "fullscreen_rerenders example_env (Some ''hello'') [id, id]
      example_fullscreen_state = replicate (length [id, id :: fullscreen_state \<Rightarrow> fullscreen_state]) []"
    by blast
  then have c: "fullscreen_rerenders example_env (Some ''hello'') [id, id]
      example_fullscreen_state = [[], []]"
    by (simp only: r)
  from t have d: "resets_guard (handleNewConversation example_env (Some ''hello'')
      example_fullscreen_state)"
    by blast
  from h g a b c d show ?thesis by blast
qed

text \<open>
  The claim C4 as the specification words it fails in two ways the code intends. A
  modal that is mounted with a prompt and never opened sends nothing, for the send is
  behind \<open>isOpen\<close>. And on the full-screen surface the mount sends the prompt once, and
  the new-conversation action then sends it a second time within the same mount.
\<close>

theorem C4_counterexample:
  "sends_of ''hello'' (concat (modal_lifetime example_env (Some ''hello'') False
      [(False, id), (False, id)])) = 0
   \<and> sends_of ''hello'' (concat (fullscreen_lifetime example_env (Some ''hello'') [id])) = 1
   \<and> \<not> isLoading example_fullscreen_state
   \<and> sends_of ''hello''
        (handleNewConversation example_env (Some ''hello'') example_fullscreen_state) = 1"
proof -
  have h: "''hello'' \<noteq> []" by simp
  have l: "\<not> isLoading fullscreen_mount_state" "\<not> isLoading example_fullscreen_state"
    by (simp_all add: fullscreen_mount_state_def example_fullscreen_state_def)
  have "modal_lifetime example_env (Some ''hello'') False
      (map (Pair False) [id, id :: chat_state \<Rightarrow> chat_state]) = replicate (Suc (length [id, id :: chat_state \<Rightarrow> chat_state])) []"
    by (rule modal_lifetime_never_opened)
  then have a: "sends_of ''hello'' (concat (modal_lifetime example_env (Some ''hello'') False
      [(False, id), (False, id)])) = 0"
    by (simp add: sends_of_def)
  have b: "sends_of ''hello'' (concat (fullscreen_lifetime example_env (Some ''hello'') [id])) = 1"
    unfolding fullscreen_lifetime_once [OF h] sends_of_replicate_Nil sends_of_guard_write
    using h l by (simp add: sends_of_Fullscreen_handleSend)
  have c: "sends_of ''hello''
        (handleNewConversation example_env (Some ''hello'') example_fullscreen_state) = 1"
    by (rule sends_of_handleNewConversation [OF h l(2)])
  from a b l(2) c show ?thesis by blast
qed

end
